theory Spec2Isabelle
  imports Complex_Main "HOL-Library.Word"
begin

unbundle bit_operations_syntax

section \<open>Numbers and bytes\<close>

text \<open>
  JavaScript numbers are modelled as exact reals, except in the random draws of
  config.js, where the result depends on the rounding of double-precision arithmetic
  and \<open>fl\<close> below models it. \<open>Math.round\<close> rounds to the nearest integer, a tie
  going up.
\<close>

definition Math_round :: "real \<Rightarrow> int" where
  "Math_round x = \<lfloor>x + 1 / 2\<rfloor>"

section \<open>Coyote frequency encoding (coyote.js, COYOTE-PROTOCOL.md)\<close>

definition encodeFrequency :: "real \<Rightarrow> real" where
  "encodeFrequency hz0 =
     (let hz = min 1000 (max 10 hz0) in
      if hz \<le> 100 then hz
      else if hz \<le> 600 then real_of_int (Math_round ((hz - 100) / 5)) + 100
      else real_of_int (Math_round ((hz - 600) / 10)) + 200)"

text \<open>The reverse mapping, as documented in COYOTE-PROTOCOL.md.\<close>

definition decodeFrequency :: "real \<Rightarrow> real" where
  "decodeFrequency val =
     (if val \<le> 100 then val
      else if val \<le> 200 then ((val - 100) * 5) + 100
      else ((val - 200) * 10) + 600)"

section \<open>Session arcs and category state (config.js)\<close>

text \<open>
  An arc maps session progress to a normalised \<open>{min, max}\<close>; the two fields are
  named \<open>min_val\<close> and \<open>max_val\<close> here. The object \<open>SESSION_ARCS\<close> is the list
  of its entries, looked up with \<open>map_of\<close>.
\<close>

record norm_range =
  min_val :: real
  max_val :: real

definition SESSION_ARCS :: "(string \<times> (real \<Rightarrow> norm_range)) list" where
  "SESSION_ARCS =
    [(''constant'', \<lambda>t. \<lparr>min_val = 0, max_val = 1\<rparr>),
     (''open_up'', \<lambda>t. \<lparr>min_val = 0, max_val = t\<rparr>),
     (''close_down'', \<lambda>t. \<lparr>min_val = 0, max_val = 1 - t\<rparr>),
     (''open_down'', \<lambda>t. \<lparr>min_val = 1 - t, max_val = 1\<rparr>),
     (''close_up'', \<lambda>t. \<lparr>min_val = t, max_val = 1\<rparr>),
     (''slide_up_wide'', \<lambda>t. \<lparr>min_val = t * 0.25, max_val = 0.75 + t * 0.25\<rparr>),
     (''slide_up'', \<lambda>t. \<lparr>min_val = t * 0.5, max_val = 0.5 + t * 0.5\<rparr>),
     (''slide_up_narrow'', \<lambda>t. \<lparr>min_val = t * 0.75, max_val = 0.25 + t * 0.75\<rparr>),
     (''slide_down_wide'', \<lambda>t. \<lparr>min_val = 0.25 - t * 0.25, max_val = 1 - t * 0.25\<rparr>),
     (''slide_down'', \<lambda>t. \<lparr>min_val = 0.5 - t * 0.5, max_val = 1 - t * 0.5\<rparr>),
     (''slide_down_narrow'', \<lambda>t. \<lparr>min_val = 0.75 - t * 0.75, max_val = 1 - t * 0.75\<rparr>),
     (''focus_high'', \<lambda>t.
        let width = 1 - t * 0.8
        in \<lparr>min_val = max 0 (t - width / 2), max_val = min 1 (t + width / 2)\<rparr>),
     (''focus_low'', \<lambda>t.
        let width = 1 - t * 0.8; center = 1 - t
        in \<lparr>min_val = max 0 (center - width / 2), max_val = min 1 (center + width / 2)\<rparr>)]"

definition applySessionArc :: "string \<Rightarrow> real \<Rightarrow> real \<Rightarrow> real \<Rightarrow> norm_range" where
  "applySessionArc arcName mn mx sessionProgress =
     (let arcFn = (case map_of SESSION_ARCS arcName of
                     Some f \<Rightarrow> f
                   | None \<Rightarrow> (\<lambda>t. \<lparr>min_val = 0, max_val = 1\<rparr>));
          normalized = arcFn sessionProgress;
          range = mx - mn
      in \<lparr>min_val = mn + range * min_val normalized,
          max_val = mn + range * max_val normalized\<rparr>)"

text \<open>
  Rounding to the nearest double, a tie going to the even significand: \<open>binade x\<close> is
  the exponent \<open>e\<close> with \<open>2 ^ e \<le> x < 2 ^ (e + 1)\<close> for positive \<open>x\<close>, and a double
  has 52 fraction bits below it. Overflow and subnormal numbers are left out: the values
  rounded here are far from both.
\<close>

function bit_length :: "nat \<Rightarrow> nat" where
  "bit_length n = (if n = 0 then 0 else Suc (bit_length (n div 2)))"
  by pat_completeness auto
termination
  by (relation "measure id") auto

declare bit_length.simps [simp del]

definition pow2 :: "int \<Rightarrow> real" where
  "pow2 k = (if 0 \<le> k then 2 ^ nat k else 1 / 2 ^ nat (- k))"

definition binade :: "real \<Rightarrow> int" where
  "binade x =
     (if 1 \<le> x then int (bit_length (nat \<lfloor>x\<rfloor>)) - 1
      else - int (bit_length (nat (\<lceil>1 / x\<rceil> - 1))))"

definition round_half_even :: "real \<Rightarrow> int" where
  "round_half_even q =
     (let f = \<lfloor>q\<rfloor>; d = q - real_of_int f
      in if d < 1 / 2 then f
         else if 1 / 2 < d then f + 1
         else if even f then f else f + 1)"

definition fl :: "real \<Rightarrow> real" where
  "fl x =
     (if x = 0 then 0
      else
        let ulp = pow2 (binade \<bar>x\<bar> - 52)
        in sgn x * real_of_int (round_half_even (\<bar>x\<bar> / ulp)) * ulp)"

text \<open>
  \<open>Math.random()\<close> is a parameter \<open>rnd\<close> of every function that draws; the product
  and the sum are rounded as the doubles they are. An index outside the array reads
  \<open>undefined\<close>, which is \<open>None\<close>.
\<close>

definition pickRandom :: "'a list \<Rightarrow> real \<Rightarrow> 'a option" where
  "pickRandom arr rnd =
     (let i = \<lfloor>fl (rnd * real (length arr))\<rfloor>
      in if 0 \<le> i \<and> i < int (length arr) then Some (arr ! nat i) else None)"

definition randomInRange :: "int \<Rightarrow> int \<Rightarrow> real \<Rightarrow> int" where
  "randomInRange mn mx rnd =
     \<lfloor>fl (real_of_int mn + fl (rnd * real_of_int (mx - mn + 1)))\<rfloor>"

record category_state =
  patterns :: "string list"
  currentPattern :: "string option"
  index :: int
  instancesRemaining :: int

record switch_settings =
  minInstances :: int
  maxInstances :: int

text \<open>The first draw picks the pattern, the second the number of instances.\<close>

definition advanceCategory ::
  "category_state \<Rightarrow> switch_settings \<Rightarrow> real \<Rightarrow> real \<Rightarrow> category_state" where
  "advanceCategory catState switchSettings rnd1 rnd2 =
     (let c = catState\<lparr>index := index catState + 1,
                        instancesRemaining := instancesRemaining catState - 1\<rparr>
      in if instancesRemaining c \<le> 0 \<and> length (patterns c) > 1 then
           let otherPatterns = filter (\<lambda>p. Some p \<noteq> currentPattern c) (patterns c);
               picked = (if length otherPatterns > 0 then pickRandom otherPatterns rnd1
                         else pickRandom (patterns c) rnd1)
           in c\<lparr>currentPattern := picked, index := 0,
                instancesRemaining :=
                  randomInRange (minInstances switchSettings) (maxInstances switchSettings) rnd2\<rparr>
         else c)"

section \<open>Bytes and text\<close>

text \<open>
  A \<open>Uint8Array\<close> is a list of bytes; storing a number in it keeps the integer part
  modulo 256. \<open>TextEncoder.encode\<close> of an ASCII string gives its character codes.
\<close>

type_synonym bytes = "8 word list"

definition ToUint8 :: "real \<Rightarrow> 8 word" where
  "ToUint8 x = word_of_int (if 0 \<le> x then \<lfloor>x\<rfloor> else \<lceil>x\<rceil>)"

definition TextEncoder_encode :: "string \<Rightarrow> bytes" where
  "TextEncoder_encode s = map of_char s"

definition digit_char :: "nat \<Rightarrow> char" where
  "digit_char d = ''0123456789'' ! d"

function nat_toString :: "nat \<Rightarrow> string" where
  "nat_toString n =
     (if n < 10 then [digit_char n] else nat_toString (n div 10) @ [digit_char (n mod 10)])"
  by pat_completeness auto
termination
  by (relation "measure id") auto

declare nat_toString.simps [simp del]

text \<open>The decimal text of an integer, as a template literal prints it.\<close>

definition Number_toString :: "int \<Rightarrow> string" where
  "Number_toString i =
     (if i < 0 then ''-'' @ nat_toString (nat (- i)) else nat_toString (nat i))"

definition lower_char :: "char \<Rightarrow> char" where
  "lower_char c =
     (case map_of (zip ''ABCDEFGHIJKLMNOPQRSTUVWXYZ'' ''abcdefghijklmnopqrstuvwxyz'') c of
        Some l \<Rightarrow> l
      | None \<Rightarrow> c)"

definition toLowerCase :: "string \<Rightarrow> string" where
  "toLowerCase s = map lower_char s"

definition startsWith :: "string \<Rightarrow> string \<Rightarrow> bool" where
  "startsWith s p = (take (length p) s = p)"

definition includesStr :: "string \<Rightarrow> string \<Rightarrow> bool" where
  "includesStr s sub = list_ex (\<lambda>i. startsWith (drop i s) sub) [0 ..< Suc (length s)]"

section \<open>Protocol implementations (protocols/*.js)\<close>

datatype protocol =
  Satisfyer | Lovense | Wevibe | Lelo | Kiiroo | Svakom | Magicmotion | Mysteryvibe
  | Aneros | Coyote | CoyoteV2

fun maxIntensity :: "protocol \<Rightarrow> int" where
  "maxIntensity Satisfyer = 100"
| "maxIntensity Lovense = 20"
| "maxIntensity Wevibe = 15"
| "maxIntensity Lelo = 255"
| "maxIntensity Kiiroo = 255"
| "maxIntensity Svakom = 255"
| "maxIntensity Magicmotion = 255"
| "maxIntensity Mysteryvibe = 255"
| "maxIntensity Aneros = 255"
| "maxIntensity Coyote = 200"
| "maxIntensity CoyoteV2 = 2047"

text \<open>
  Every \<open>buildCommand\<close> starts with
  \<open>const level = Math.round(intensity * this.maxIntensity)\<close>; the legacy Coyote
  protocol multiplies by 1024 instead.
\<close>

definition level :: "protocol \<Rightarrow> real \<Rightarrow> int" where
  "level p intensity =
     (if p = CoyoteV2 then Math_round (intensity * 1024)
      else Math_round (intensity * real_of_int (maxIntensity p)))"

definition lovense_buildCommand :: "real \<Rightarrow> bytes" where
  "lovense_buildCommand intensity =
     (let lv = level Lovense intensity;
          cmd = ''Vibrate:'' @ Number_toString lv @ '';''
      in TextEncoder_encode cmd)"

definition lovense_buildStopCommand :: bytes where
  "lovense_buildStopCommand = TextEncoder_encode ''Vibrate:0;''"

definition aneros_buildCommand :: "real \<Rightarrow> int \<Rightarrow> bytes" where
  "aneros_buildCommand intensity motorIndex =
     (let lv = level Aneros intensity
      in [word_of_int (0xF1 + motorIndex), word_of_int lv])"

definition aneros_buildStopCommand :: "int \<Rightarrow> bytes" where
  "aneros_buildStopCommand motorIndex = [word_of_int (0xF1 + motorIndex), 0x00]"

definition kiiroo_buildCommand :: "real \<Rightarrow> nat \<Rightarrow> bytes" where
  "kiiroo_buildCommand intensity motorCount =
     (let lv = level Kiiroo intensity
      in replicate motorCount (word_of_int lv))"

definition kiiroo_buildStopCommand :: "nat \<Rightarrow> bytes" where
  "kiiroo_buildStopCommand motorCount = replicate motorCount 0"

definition svakom_buildCommand :: "real \<Rightarrow> bytes" where
  "svakom_buildCommand intensity =
     (let lv = level Svakom intensity;
          multiplier = (if lv = 0 then 0x00 else 0x01)
      in [0x55, 0x04, 0x03, 0x00, multiplier, word_of_int lv])"

definition svakom_buildStopCommand :: bytes where
  "svakom_buildStopCommand = [0x55, 0x04, 0x03, 0x00, 0x00, 0x00]"

definition satisfyer_buildCommand :: "real \<Rightarrow> nat \<Rightarrow> bytes" where
  "satisfyer_buildCommand intensity motorCount =
     (let lv = level Satisfyer intensity
      in concat (replicate motorCount
           [word_of_int lv, word_of_int lv, word_of_int lv, word_of_int lv]))"

definition satisfyer_buildStopCommand :: "nat \<Rightarrow> bytes" where
  "satisfyer_buildStopCommand motorCount = satisfyer_buildCommand 0 motorCount"

text \<open>An optional second intensity is \<open>None\<close> when it is \<open>null\<close> or left out.\<close>

definition lelo_buildCommand :: "real \<Rightarrow> real option \<Rightarrow> bytes" where
  "lelo_buildCommand intensity intensity2 =
     (let level1 = level Lelo intensity;
          level2 = (case intensity2 of Some i2 \<Rightarrow> level Lelo i2 | None \<Rightarrow> level1)
      in [0x01, word_of_int level1, word_of_int level2])"

definition lelo_buildStopCommand :: bytes where
  "lelo_buildStopCommand = [0x01, 0x00, 0x00]"

definition wevibe_buildCommand :: "real \<Rightarrow> real option \<Rightarrow> bytes" where
  "wevibe_buildCommand intensity intensityExt =
     (let intLevel = level Wevibe intensity;
          extLevel = (case intensityExt of Some e \<Rightarrow> level Wevibe e | None \<Rightarrow> intLevel)
      in if intLevel = 0 \<and> extLevel = 0 then
           [0x0f, 0x00, 0x00, 0x00, 0x00, 0x00, 0x00, 0x00]
         else
           let combinedSpeed = extLevel OR push_bit 4 intLevel
           in [0x0f, 0x03, 0x00, word_of_int combinedSpeed, 0x00, 0x03, 0x00, 0x00])"

definition wevibe_buildStopCommand :: bytes where
  "wevibe_buildStopCommand = [0x0f, 0x00, 0x00, 0x00, 0x00, 0x00, 0x00, 0x00]"

definition mysteryvibe_buildCommand :: "real \<Rightarrow> nat \<Rightarrow> bytes" where
  "mysteryvibe_buildCommand intensity motorCount =
     (let lv = level Mysteryvibe intensity
      in replicate motorCount (word_of_int lv))"

definition mysteryvibe_buildStopCommand :: "nat \<Rightarrow> bytes" where
  "mysteryvibe_buildStopCommand motorCount = replicate motorCount 0"

definition magicmotion_buildCommand :: "real \<Rightarrow> bytes" where
  "magicmotion_buildCommand intensity =
     (let lv = level Magicmotion intensity
      in [0x0b, 0xff, 0x04, 0x0a, 0x32, 0x32, 0x00, 0x04, 0x08, word_of_int lv,
          0x64, 0x00, 0x04, 0x08, word_of_int lv])"

definition magicmotion_buildStopCommand :: bytes where
  "magicmotion_buildStopCommand = magicmotion_buildCommand 0"

subsection \<open>Coyote V3 (coyote.js)\<close>

record waveform =
  wf_freq :: "real list"
  wf_intensity :: "real list"

text \<open>
  A sample read past the end of an array is \<open>undefined\<close>; the arithmetic on it gives
  \<open>NaN\<close>, which a \<open>Uint8Array\<close> stores as 0.
\<close>

definition freq_byte :: "real list \<Rightarrow> nat \<Rightarrow> 8 word" where
  "freq_byte waveFreq i =
     (if i < length waveFreq then ToUint8 (encodeFrequency (waveFreq ! i)) else 0)"

definition int_byte :: "real list \<Rightarrow> nat \<Rightarrow> 8 word" where
  "int_byte waveInt i =
     (if i < length waveInt then ToUint8 (min 100 (max 0 (waveInt ! i))) else 0)"

record b0_options =
  sequence :: int
  modeA :: int
  modeB :: int
  intensityA :: int
  intensityB :: int
  waveFreqA :: "real list"
  waveIntA :: "real list"
  waveFreqB :: "real list"
  waveIntB :: "real list"

definition b0_defaults :: b0_options where
  "b0_defaults =
     \<lparr>sequence = 0, modeA = 3, modeB = 3, intensityA = 0, intensityB = 0,
      waveFreqA = [100, 100, 100, 100], waveIntA = [50, 50, 50, 50],
      waveFreqB = [100, 100, 100, 100], waveIntB = [50, 50, 50, 50]\<rparr>"

definition buildB0Command :: "b0_options \<Rightarrow> bytes" where
  "buildB0Command options =
     [0xB0,
      word_of_int (push_bit 4 (sequence options) OR push_bit 2 (modeB options) OR modeA options),
      word_of_int (min 200 (max 0 (intensityA options))),
      word_of_int (min 200 (max 0 (intensityB options)))]
     @ map (freq_byte (waveFreqA options)) [0 ..< 4]
     @ map (int_byte (waveIntA options)) [0 ..< 4]
     @ map (freq_byte (waveFreqB options)) [0 ..< 4]
     @ map (int_byte (waveIntB options)) [0 ..< 4]"

definition defaultWaveform :: waveform where
  "defaultWaveform = \<lparr>wf_freq = [100, 100, 100, 100], wf_intensity = [50, 50, 50, 50]\<rparr>"

text \<open>The object \<open>coyote._state\<close>; a waveform that is \<open>null\<close> is \<open>None\<close>.\<close>

record coyote_state =
  st_intensityA :: int
  st_intensityB :: int
  st_waveformA :: "waveform option"
  st_waveformB :: "waveform option"

definition coyote_frame :: "coyote_state \<Rightarrow> bytes" where
  "coyote_frame st =
     buildB0Command (b0_defaults
       \<lparr>intensityA := st_intensityA st,
        intensityB := st_intensityB st,
        waveFreqA := (case st_waveformA st of Some w \<Rightarrow> wf_freq w | None \<Rightarrow> wf_freq defaultWaveform),
        waveIntA := (case st_waveformA st of Some w \<Rightarrow> wf_intensity w
                     | None \<Rightarrow> wf_intensity defaultWaveform),
        waveFreqB := (case st_waveformB st of Some w \<Rightarrow> wf_freq w | None \<Rightarrow> wf_freq defaultWaveform),
        waveIntB := (case st_waveformB st of Some w \<Rightarrow> wf_intensity w
                     | None \<Rightarrow> wf_intensity defaultWaveform)\<rparr>)"

definition coyote_buildCommand :: "coyote_state \<Rightarrow> real \<Rightarrow> int \<Rightarrow> coyote_state \<times> bytes" where
  "coyote_buildCommand st intensity motorIndex =
     (let lv = level Coyote intensity;
          st' = (if motorIndex = 0 then st\<lparr>st_intensityA := lv\<rparr>
                 else st\<lparr>st_intensityB := lv\<rparr>)
      in (st', coyote_frame st'))"

record full_options =
  opt_intensityA :: "int option"
  opt_intensityB :: "int option"
  opt_waveformA :: "waveform option"
  opt_waveformB :: "waveform option"

definition coyote_buildFullCommand ::
  "coyote_state \<Rightarrow> full_options \<Rightarrow> coyote_state \<times> bytes" where
  "coyote_buildFullCommand st options =
     (let st1 = (case opt_intensityA options of Some a \<Rightarrow> st\<lparr>st_intensityA := a\<rparr> | None \<Rightarrow> st);
          st2 = (case opt_intensityB options of Some b \<Rightarrow> st1\<lparr>st_intensityB := b\<rparr> | None \<Rightarrow> st1);
          st3 = (case opt_waveformA options of Some w \<Rightarrow> st2\<lparr>st_waveformA := Some w\<rparr>
                 | None \<Rightarrow> st2);
          st4 = (case opt_waveformB options of Some w \<Rightarrow> st3\<lparr>st_waveformB := Some w\<rparr>
                 | None \<Rightarrow> st3)
      in (st4, coyote_frame st4))"

definition coyote_buildStopCommand :: "coyote_state \<Rightarrow> coyote_state \<times> bytes" where
  "coyote_buildStopCommand st =
     (st\<lparr>st_intensityA := 0, st_intensityB := 0\<rparr>,
      buildB0Command (b0_defaults\<lparr>intensityA := 0, intensityB := 0\<rparr>))"

text \<open>The state that \<open>init\<close> and \<open>connectV3\<close> install.\<close>

definition coyote_reset_state :: coyote_state where
  "coyote_reset_state =
     \<lparr>st_intensityA = 0, st_intensityB = 0, st_waveformA = None, st_waveformB = None\<rparr>"

subsection \<open>Coyote V2 (coyote.js)\<close>

definition encodeV2Power :: "int \<Rightarrow> int \<Rightarrow> bytes" where
  "encodeV2Power a0 b0 =
     (let a = min 2047 (max 0 a0);
          b = min 2047 (max 0 b0);
          byte0 = b AND 0xFF;
          byte1 = (drop_bit 8 b AND 0x07) OR push_bit 3 (a AND 0x1F);
          byte2 = drop_bit 5 a AND 0x3F
      in [word_of_int byte0, word_of_int byte1, word_of_int byte2])"

definition encodeV2Wave :: "int \<Rightarrow> int \<Rightarrow> int \<Rightarrow> bytes" where
  "encodeV2Wave x0 y0 z0 =
     (let x = min 31 (max 0 x0);
          y = min 1023 (max 0 y0);
          z = min 31 (max 0 z0);
          byte0 = (x AND 0x1F) OR push_bit 5 (y AND 0x07);
          byte1 = drop_bit 3 y AND 0x7F;
          byte2 = z AND 0x1F
      in [word_of_int byte0, word_of_int byte1, word_of_int byte2])"




record v2_state =
  v2_intensityA :: int
  v2_intensityB :: int
  v2_interval :: int
  v2_connected :: bool

definition v2_buildCommand :: "v2_state \<Rightarrow> real \<Rightarrow> int \<Rightarrow> v2_state \<times> bytes" where
  "v2_buildCommand v2State intensity motorIndex =
     (let lv = level CoyoteV2 intensity;
          st' = (if motorIndex = 0 then v2State\<lparr>v2_intensityA := lv\<rparr>
                 else v2State\<lparr>v2_intensityB := lv\<rparr>)
      in (st', encodeV2Power (v2_intensityA st') (v2_intensityB st')))"

definition v2_buildStopCommand :: "v2_state \<Rightarrow> v2_state \<times> bytes" where
  "v2_buildStopCommand v2State =
     (v2State\<lparr>v2_intensityA := 0, v2_intensityB := 0\<rparr>, encodeV2Power 0 0)"

subsection \<open>The protocol interface as the connection manager calls it\<close>

text \<open>
  \<open>protocol.buildCommand(intensity)\<close> and \<open>protocol.buildStopCommand()\<close> with the
  second argument left out, so that each default applies. The state holds what the two
  Coyote generations keep between calls; the other protocols do not touch it.
\<close>

record protocol_state =
  coyote_st :: coyote_state
  v2_st :: v2_state

definition buildCommand :: "protocol \<Rightarrow> protocol_state \<Rightarrow> real \<Rightarrow> protocol_state \<times> bytes" where
  "buildCommand p ps i =
     (case p of
        Satisfyer \<Rightarrow> (ps, satisfyer_buildCommand i 1)
      | Lovense \<Rightarrow> (ps, lovense_buildCommand i)
      | Wevibe \<Rightarrow> (ps, wevibe_buildCommand i None)
      | Lelo \<Rightarrow> (ps, lelo_buildCommand i None)
      | Kiiroo \<Rightarrow> (ps, kiiroo_buildCommand i 1)
      | Svakom \<Rightarrow> (ps, svakom_buildCommand i)
      | Magicmotion \<Rightarrow> (ps, magicmotion_buildCommand i)
      | Mysteryvibe \<Rightarrow> (ps, mysteryvibe_buildCommand i 6)
      | Aneros \<Rightarrow> (ps, aneros_buildCommand i 0)
      | Coyote \<Rightarrow> (let (st, cmd) = coyote_buildCommand (coyote_st ps) i 0
                    in (ps\<lparr>coyote_st := st\<rparr>, cmd))
      | CoyoteV2 \<Rightarrow> (let (st, cmd) = v2_buildCommand (v2_st ps) i 0
                      in (ps\<lparr>v2_st := st\<rparr>, cmd)))"

definition buildStopCommand :: "protocol \<Rightarrow> protocol_state \<Rightarrow> protocol_state \<times> bytes" where
  "buildStopCommand p ps =
     (case p of
        Satisfyer \<Rightarrow> (ps, satisfyer_buildStopCommand 1)
      | Lovense \<Rightarrow> (ps, lovense_buildStopCommand)
      | Wevibe \<Rightarrow> (ps, wevibe_buildStopCommand)
      | Lelo \<Rightarrow> (ps, lelo_buildStopCommand)
      | Kiiroo \<Rightarrow> (ps, kiiroo_buildStopCommand 1)
      | Svakom \<Rightarrow> (ps, svakom_buildStopCommand)
      | Magicmotion \<Rightarrow> (ps, magicmotion_buildStopCommand)
      | Mysteryvibe \<Rightarrow> (ps, mysteryvibe_buildStopCommand 6)
      | Aneros \<Rightarrow> (ps, aneros_buildStopCommand 0)
      | Coyote \<Rightarrow> (let (st, cmd) = coyote_buildStopCommand (coyote_st ps)
                    in (ps\<lparr>coyote_st := st\<rparr>, cmd))
      | CoyoteV2 \<Rightarrow> (let (st, cmd) = v2_buildStopCommand (v2_st ps)
                      in (ps\<lparr>v2_st := st\<rparr>, cmd)))"

definition stateless :: "protocol \<Rightarrow> bool" where
  "stateless p = (p \<noteq> Coyote \<and> p \<noteq> CoyoteV2)"



section \<open>Protocol registry (protocols/index.js)\<close>

text \<open>
  Every name pattern of the registry is a regular expression \<open>/^text/\<close> or
  \<open>/^text/i\<close>: a prefix test, case-insensitive on ASCII letters in the second form.
\<close>

datatype name_pattern = Prefix string | PrefixI string

fun regex_test :: "name_pattern \<Rightarrow> string \<Rightarrow> bool" where
  "regex_test (Prefix p) deviceName = startsWith deviceName p"
| "regex_test (PrefixI p) deviceName = startsWith (toLowerCase deviceName) (toLowerCase p)"

record characteristic =
  c_uuid :: string
  c_write :: bool
  c_writeWithoutResponse :: bool

text \<open>\<open>getCharacteristics\<close> may reject; then it carries the error message.\<close>

record service =
  uuid :: string
  getCharacteristics :: "string + characteristic list"

record protocol_def =
  def_id :: string
  namePatterns :: "name_pattern list"
  serviceUUIDs :: "string list"
  def_protocol :: protocol

definition PROTOCOLS :: "protocol_def list" where
  "PROTOCOLS =
    [\<lparr>def_id = ''satisfyer'',
      namePatterns = [Prefix ''SF'', PrefixI ''Satisfyer'', PrefixI ''SAT''],
      serviceUUIDs = [''0000fff0-0000-1000-8000-00805f9b34fb''],
      def_protocol = Satisfyer\<rparr>,
     \<lparr>def_id = ''lovense'',
      namePatterns = [Prefix ''LVS-'', Prefix ''Lush'', Prefix ''Hush'', Prefix ''Edge'',
        Prefix ''Osci'', Prefix ''Domi'', Prefix ''Nora'', Prefix ''Max'', Prefix ''Ambi'',
        Prefix ''Ferri'', Prefix ''Diamo'', Prefix ''Dolce'', Prefix ''Exomoon'',
        Prefix ''Tenera'', Prefix ''Flexer'', Prefix ''Gravity'', Prefix ''Gemini'',
        Prefix ''Lapis'', PrefixI ''Solace''],
      serviceUUIDs = [''50300001-0024-4bd4-bbd5-a6920e4c5653'',
        ''53300001-0023-4bd4-bbd5-a6920e4c5653'',
        ''57300001-0023-4bd4-bbd5-a6920e4c5653'',
        ''5a300001-0023-4bd4-bbd5-a6920e4c5653'',
        ''5a300001-0024-4bd4-bbd5-a6920e4c5653'',
        ''6e400001-b5a3-f393-e0a9-e50e24dcca9e''],
      def_protocol = Lovense\<rparr>,
     \<lparr>def_id = ''wevibe'',
      namePatterns = [Prefix ''Cougar'', Prefix ''Ditto'', Prefix ''Gala'', Prefix ''Jive'',
        Prefix ''Match'', Prefix ''Melt'', Prefix ''Moxie'', Prefix ''Nova'', Prefix ''Pivot'',
        Prefix ''Rave'', Prefix ''Sync'', Prefix ''Vector'', Prefix ''Verge'', Prefix ''Wish'',
        PrefixI ''We-Vibe''],
      serviceUUIDs = [''f000bb03-0451-4000-b000-000000000000''],
      def_protocol = Wevibe\<rparr>,
     \<lparr>def_id = ''lelo'',
      namePatterns = [Prefix ''F1s'', PrefixI ''LELO'', Prefix ''Sona'', Prefix ''Tiani'',
        Prefix ''Hugo'', Prefix ''Ida'', Prefix ''Ina'', Prefix ''Lily'', Prefix ''Mona'',
        Prefix ''Ora'', Prefix ''Sila'', PrefixI ''Soraya''],
      serviceUUIDs = [],
      def_protocol = Lelo\<rparr>,
     \<lparr>def_id = ''kiiroo'',
      namePatterns = [Prefix ''Onyx'', Prefix ''Pearl'', Prefix ''Fuse'', Prefix ''Titan'',
        Prefix ''Cliona'', PrefixI ''OhMiBod'', PrefixI ''Kiiroo''],
      serviceUUIDs = [],
      def_protocol = Kiiroo\<rparr>,
     \<lparr>def_id = ''svakom'',
      namePatterns = [PrefixI ''Svakom'', Prefix ''Emma'', Prefix ''Ella'', Prefix ''Vicky'',
        Prefix ''Alex'', Prefix ''Sam'', Prefix ''Iker'', Prefix ''Tarax'', PrefixI ''Pulse''],
      serviceUUIDs = [],
      def_protocol = Svakom\<rparr>,
     \<lparr>def_id = ''magicmotion'',
      namePatterns = [PrefixI ''Magic Motion'', Prefix ''Kegel'', Prefix ''Flamingo'',
        Prefix ''Candy'', Prefix ''Bunny'', PrefixI ''Eidolon''],
      serviceUUIDs = [],
      def_protocol = Magicmotion\<rparr>,
     \<lparr>def_id = ''mysteryvibe'',
      namePatterns = [Prefix ''Crescendo'', Prefix ''Tenuto'', Prefix ''Poco'',
        PrefixI ''MysteryVibe''],
      serviceUUIDs = [],
      def_protocol = Mysteryvibe\<rparr>,
     \<lparr>def_id = ''aneros'',
      namePatterns = [PrefixI ''Vivi''],
      serviceUUIDs = [],
      def_protocol = Aneros\<rparr>,
     \<lparr>def_id = ''coyote'',
      namePatterns = [PrefixI ''D-LAB ESTIM'', Prefix ''47L''],
      serviceUUIDs = [''0000180c-0000-1000-8000-00805f9b34fb''],
      def_protocol = Coyote\<rparr>]"

definition name_matches :: "protocol_def \<Rightarrow> string \<Rightarrow> bool" where
  "name_matches d deviceName = list_ex (\<lambda>pattern. regex_test pattern deviceName) (namePatterns d)"

definition uuid_matches :: "protocol_def \<Rightarrow> string list \<Rightarrow> bool" where
  "uuid_matches d uuids =
     (length (serviceUUIDs d) > 0
      \<and> list_ex (\<lambda>u. toLowerCase u \<in> set uuids) (serviceUUIDs d))"

text \<open>The loop over the registry; \<open>None\<close> is the \<open>null\<close> of an unknown device.\<close>

fun detect_in :: "protocol_def list \<Rightarrow> string \<Rightarrow> string list \<Rightarrow> protocol option" where
  "detect_in [] deviceName uuids = None"
| "detect_in (d # ds) deviceName uuids =
     (if name_matches d deviceName then Some (def_protocol d)
      else if uuid_matches d uuids then Some (def_protocol d)
      else detect_in ds deviceName uuids)"

definition detectProtocol :: "string \<Rightarrow> service list \<Rightarrow> protocol option" where
  "detectProtocol deviceName services =
     (let uuids = map (\<lambda>s. toLowerCase (uuid s)) services
      in detect_in PROTOCOLS deviceName uuids)"

section \<open>Connection manager (vibrator.js, coyote.js)\<close>

subsection \<open>The GATT connect loop\<close>

text \<open>
  What the device does at one attempt: \<open>gatt.connect()\<close> rejects, or it resolves and
  \<open>getPrimaryServices()\<close> rejects, or both resolve. The events record what the loop
  does, a delay being \<open>Sleep\<close> with its milliseconds.
\<close>

datatype ('e, 's) attempt_outcome = ConnectFails 'e | ServicesFail 'e | Succeeds 's

datatype gatt_event = GattConnect | GetPrimaryServices | Sleep nat | Warn nat

fun try_attempt :: "('e, 's) attempt_outcome \<Rightarrow> gatt_event list \<times> ('e + 's)" where
  "try_attempt (ConnectFails e) = ([GattConnect], Inl e)"
| "try_attempt (ServicesFail e) = ([GattConnect, Sleep 300, GetPrimaryServices], Inl e)"
| "try_attempt (Succeeds s) = ([GattConnect, Sleep 300, GetPrimaryServices], Inr s)"

text \<open>
  The \<open>for\<close> loop from \<open>attempt\<close> on. \<open>Inl e\<close> is the rethrown error, \<open>Inr (Some s)\<close>
  the services at the \<open>break\<close>, \<open>Inr None\<close> a loop left with \<open>services\<close> unassigned.
\<close>

function connect_attempts ::
  "(nat \<Rightarrow> ('e, 's) attempt_outcome) \<Rightarrow> nat \<Rightarrow> gatt_event list \<times> ('e + 's option)" where
  "connect_attempts gatt attempt =
     (if attempt \<le> 3 then
        (case try_attempt (gatt attempt) of
           (evs, Inr s) \<Rightarrow> (evs, Inr (Some s))
         | (evs, Inl e) \<Rightarrow>
             if attempt = 3 then (evs @ [Warn attempt], Inl e)
             else (case connect_attempts gatt (attempt + 1) of
                     (rest, r) \<Rightarrow> (evs @ [Warn attempt, Sleep 500] @ rest, r)))
      else ([], Inr None))"
  by pat_completeness auto
termination
  by (relation "measure (\<lambda>(gatt, attempt). 4 - attempt)") auto

declare connect_attempts.simps [simp del]

fun failure :: "('e, 's) attempt_outcome \<Rightarrow> 'e option" where
  "failure (ConnectFails e) = Some e"
| "failure (ServicesFail e) = Some e"
| "failure (Succeeds s) = None"

definition count_connects :: "gatt_event list \<Rightarrow> nat" where
  "count_connects evs = length (filter (\<lambda>e. e = GattConnect) evs)"

subsection \<open>Coyote generation selection\<close>

definition isCoyote :: "string \<Rightarrow> bool" where
  "isCoyote deviceName =
     (if deviceName = [] then False
      else let name = toLowerCase deviceName
           in startsWith name ''d-lab'' \<or> startsWith name ''dg-lab'' \<or> startsWith name ''47l''
              \<or> startsWith name ''coyote'' \<or> includesStr name ''estim'')"

definition V3_CONTROL_SERVICE :: string where
  "V3_CONTROL_SERVICE = ''0000180c-0000-1000-8000-00805f9b34fb''"

definition V3_WRITE_CHAR :: string where
  "V3_WRITE_CHAR = ''0000150a-0000-1000-8000-00805f9b34fb''"

definition V2_SERVICE_A :: string where
  "V2_SERVICE_A = ''955a180a-0fe2-f5aa-a094-84b8d4f3e8ad''"

definition V2_SERVICE_B :: string where
  "V2_SERVICE_B = ''955a180b-0fe2-f5aa-a094-84b8d4f3e8ad''"

definition V2_POWER :: string where
  "V2_POWER = ''955a1504-0fe2-f5aa-a094-84b8d4f3e8ad''"

definition V2_WAVE_A :: string where
  "V2_WAVE_A = ''955a1506-0fe2-f5aa-a094-84b8d4f3e8ad''"

definition V2_WAVE_B :: string where
  "V2_WAVE_B = ''955a1505-0fe2-f5aa-a094-84b8d4f3e8ad''"

datatype conn_error =
  GattError string
  | TypeError
  | NotFoundError
  | NoWritableCharacteristic
  | V2PowerNotFound
  | NoKnownCoyoteService

datatype version = V3 | V2

record coyote_result =
  r_writeChar :: characteristic
  r_waveAChar :: "characteristic option"
  r_waveBChar :: "characteristic option"
  r_version :: version
  r_protocol :: protocol

definition connectV3 :: "service \<Rightarrow> conn_error + coyote_result" where
  "connectV3 svc =
     (case getCharacteristics svc of
        Inl e \<Rightarrow> Inl (GattError e)
      | Inr chars \<Rightarrow>
          (case find (\<lambda>c. c_uuid c = V3_WRITE_CHAR) chars of
             None \<Rightarrow> Inl NotFoundError
           | Some writeChar \<Rightarrow>
               Inr \<lparr>r_writeChar = writeChar, r_waveAChar = None, r_waveBChar = None,
                    r_version = V3, r_protocol = Coyote\<rparr>))"

text \<open>The scan of one characteristic and of the legacy services; a later match replaces an earlier one.\<close>

definition scan_char ::
  "characteristic option \<times> characteristic option \<times> characteristic option \<Rightarrow> characteristic
   \<Rightarrow> characteristic option \<times> characteristic option \<times> characteristic option" where
  "scan_char found c =
     (case found of (powerChar, waveAChar, waveBChar) \<Rightarrow>
        (if c_uuid c = V2_POWER then Some c else powerChar,
         if c_uuid c = V2_WAVE_A then Some c else waveAChar,
         if c_uuid c = V2_WAVE_B then Some c else waveBChar))"

definition scan_service ::
  "characteristic option \<times> characteristic option \<times> characteristic option \<Rightarrow> service
   \<Rightarrow> characteristic option \<times> characteristic option \<times> characteristic option" where
  "scan_service found svc =
     (case getCharacteristics svc of
        Inl e \<Rightarrow> found
      | Inr chars \<Rightarrow> foldl scan_char found chars)"

definition connectV2 :: "service list \<Rightarrow> conn_error + coyote_result" where
  "connectV2 allServices =
     (let v2Services = filter (\<lambda>s. uuid s = V2_SERVICE_A \<or> uuid s = V2_SERVICE_B) allServices
      in case foldl scan_service (None, None, None) v2Services of
           (None, waveAChar, waveBChar) \<Rightarrow> Inl V2PowerNotFound
         | (Some powerChar, waveAChar, waveBChar) \<Rightarrow>
             Inr \<lparr>r_writeChar = powerChar, r_waveAChar = waveAChar, r_waveBChar = waveBChar,
                  r_version = V2, r_protocol = CoyoteV2\<rparr>)"

definition connectCoyote :: "service list \<Rightarrow> conn_error + coyote_result" where
  "connectCoyote services =
     (case find (\<lambda>s. uuid s = V3_CONTROL_SERVICE) services of
        Some v3Service \<Rightarrow> connectV3 v3Service
      | None \<Rightarrow>
          if find (\<lambda>s. uuid s = V2_SERVICE_B) services \<noteq> None
             \<or> find (\<lambda>s. uuid s = V2_SERVICE_A) services \<noteq> None
          then connectV2 services
          else Inl NoKnownCoyoteService)"

subsection \<open>connect and the handle it returns\<close>

record handle =
  h_name :: string
  h_protocol :: protocol
  h_writeChar :: characteristic
  h_useWriteWithoutResponse :: bool

definition target_service :: "service list \<Rightarrow> service option" where
  "target_service services =
     (case find (\<lambda>s. \<not> startsWith (uuid s) ''00001800'' \<and> \<not> startsWith (uuid s) ''00001801'')
             services of
        Some s \<Rightarrow> Some s
      | None \<Rightarrow> (case services of [] \<Rightarrow> None | s # rest \<Rightarrow> Some s))"

text \<open>
  The part of \<open>connect\<close> after the connect loop. Every \<open>init\<close> catches its own write
  errors, so it cannot make \<open>connect\<close> fail and is left out.
\<close>

definition connect_device :: "string \<Rightarrow> service list \<Rightarrow> conn_error + handle" where
  "connect_device deviceName services =
     (if isCoyote deviceName then
        (case connectCoyote services of
           Inl e \<Rightarrow> Inl e
         | Inr result \<Rightarrow>
             Inr \<lparr>h_name = deviceName, h_protocol = r_protocol result,
                  h_writeChar = r_writeChar result,
                  h_useWriteWithoutResponse = (r_version result = V2)\<rparr>)
      else
        let protocol = (case detectProtocol deviceName services of
                          Some p \<Rightarrow> p
                        | None \<Rightarrow> Lovense)
        in case target_service services of
             None \<Rightarrow> Inl TypeError
           | Some targetService \<Rightarrow>
               (case getCharacteristics targetService of
                  Inl e \<Rightarrow> Inl (GattError e)
                | Inr chars \<Rightarrow>
                    (case find (\<lambda>c. c_write c \<or> c_writeWithoutResponse c) chars of
                       None \<Rightarrow> Inl NoWritableCharacteristic
                     | Some writeChar \<Rightarrow>
                         Inr \<lparr>h_name = deviceName, h_protocol = protocol,
                              h_writeChar = writeChar,
                              h_useWriteWithoutResponse = False\<rparr>)))"

record device =
  dev_name :: string
  dev_gatt :: "nat \<Rightarrow> (string, service list) attempt_outcome"

definition connect :: "device \<Rightarrow> conn_error + handle" where
  "connect dev =
     (case snd (connect_attempts (dev_gatt dev) 1) of
        Inl e \<Rightarrow> Inl (GattError e)
      | Inr None \<Rightarrow> Inl TypeError
      | Inr (Some services) \<Rightarrow> connect_device (dev_name dev) services)"

datatype write_method = WriteValue | WriteValueWithoutResponse

text \<open>
  What \<open>send\<close> does with the characteristic: a write by the method \<open>writeToChar\<close>
  chooses, or a call of the protocol's own \<open>sendCommand\<close>, which only the legacy Coyote
  protocol has.
\<close>

datatype send_action = CharWrite write_method characteristic bytes | SendCommand real

record handle_state =
  hs_active :: bool
  hs_lastCommand :: "bytes option"
  hs_lastIntensity :: real
  hs_protocol_state :: protocol_state

definition writeToChar :: "handle \<Rightarrow> characteristic \<Rightarrow> bytes \<Rightarrow> send_action" where
  "writeToChar h char data =
     (if h_useWriteWithoutResponse h \<or> \<not> c_write char
      then CharWrite WriteValueWithoutResponse char data
      else CharWrite WriteValue char data)"

definition send :: "handle \<Rightarrow> handle_state \<Rightarrow> real \<Rightarrow> handle_state \<times> send_action" where
  "send h hs i =
     (let hs1 = hs\<lparr>hs_lastIntensity := i\<rparr>;
          (ps, cmd) = buildCommand (h_protocol h) (hs_protocol_state hs1) i;
          hs2 = hs1\<lparr>hs_lastCommand := Some cmd, hs_protocol_state := ps\<rparr>
      in if h_protocol h = CoyoteV2 then (hs2, SendCommand i)
         else (hs2, writeToChar h (h_writeChar h) cmd))"



section \<open>Legacy Coyote send path (coyote.js, connectV2)\<close>

text \<open>
  The closure of \<open>connectV2\<close> as a transition system. JavaScript runs one callback
  to its next \<open>await\<close> before anything else runs, so a step is: a call of
  \<open>sendCommand\<close> or \<open>stopCommand\<close> up to its first \<open>await\<close>, or the settling of
  the promise one suspended call awaits and the run of that call up to its next
  \<open>await\<close>. A suspended call is a task. Nothing in the state limits the number of
  tasks: that at most one awaits a write is a theorem.
\<close>

record v2_config =
  hasWaveA :: bool
  hasWaveB :: bool

datatype v2_target = WaveA | WaveB | Power

datatype v2_task =
  Sending v2_target real
  | Stopping
  | StopWaiting

datatype settled = Resolved | Rejected string

datatype v2_event =
  CallSend real
  | CallStop
  | Settle nat settled
  | Disconnected

record v2_sys =
  v2State :: v2_state
  v2Sending :: bool
  v2Pending :: "real option"
  tasks :: "v2_task list"
  transmitted :: "(v2_target \<times> bytes) list"

definition v2_initial :: v2_sys where
  "v2_initial =
     \<lparr>v2State = \<lparr>v2_intensityA = 0, v2_intensityB = 0, v2_interval = 100, v2_connected = True\<rparr>,
      v2Sending = False, v2Pending = None, tasks = [], transmitted = []\<rparr>"

definition first_target :: "v2_config \<Rightarrow> v2_target" where
  "first_target cfg = (if hasWaveA cfg then WaveA else if hasWaveB cfg then WaveB else Power)"

text \<open>\<open>sendCommand\<close> from its call to its first \<open>await\<close>.\<close>

definition sendCommand :: "v2_config \<Rightarrow> v2_sys \<Rightarrow> real \<Rightarrow> v2_sys" where
  "sendCommand cfg s i =
     (if \<not> v2_connected (v2State s) then s
      else if v2Sending s then s\<lparr>v2Pending := Some i\<rparr>
      else
        let lv = Math_round (i * 1024)
        in s\<lparr>v2Sending := True,
             v2State := (v2State s)\<lparr>v2_intensityA := lv, v2_intensityB := lv\<rparr>,
             tasks := tasks s @ [Sending (first_target cfg) i]\<rparr>)"

definition send_catch :: "v2_sys \<Rightarrow> string \<Rightarrow> v2_sys" where
  "send_catch s message =
     (if includesStr message ''disconnected''
      then s\<lparr>v2State := (v2State s)\<lparr>v2_connected := False\<rparr>\<rparr>
      else s)"

definition send_finally :: "v2_config \<Rightarrow> v2_sys \<Rightarrow> v2_sys" where
  "send_finally cfg s =
     (let s1 = s\<lparr>v2Sending := False\<rparr>
      in case v2Pending s1 of
           None \<Rightarrow> s1
         | Some pending \<Rightarrow> sendCommand cfg (s1\<lparr>v2Pending := None\<rparr>) pending)"

definition write_frame :: "v2_target \<Rightarrow> real \<Rightarrow> bytes" where
  "write_frame t i =
     (case t of
        WaveA \<Rightarrow> encodeV2Wave 10 100 10
      | WaveB \<Rightarrow> encodeV2Wave 10 100 10
      | Power \<Rightarrow> encodeV2Power (Math_round (i * 1024)) (Math_round (i * 1024)))"

text \<open>\<open>sendCommand\<close> after the write to \<open>t\<close> has settled.\<close>

definition send_resume :: "v2_config \<Rightarrow> v2_sys \<Rightarrow> v2_target \<Rightarrow> real \<Rightarrow> settled \<Rightarrow> v2_sys" where
  "send_resume cfg s t i out =
     (case out of
        Rejected message \<Rightarrow> send_finally cfg (send_catch s message)
      | Resolved \<Rightarrow>
          let s1 = s\<lparr>transmitted := transmitted s @ [(t, write_frame t i)]\<rparr>
          in case t of
               WaveA \<Rightarrow> (if hasWaveB cfg then s1\<lparr>tasks := tasks s1 @ [Sending WaveB i]\<rparr>
                          else s1\<lparr>tasks := tasks s1 @ [Sending Power i]\<rparr>)
             | WaveB \<Rightarrow> s1\<lparr>tasks := tasks s1 @ [Sending Power i]\<rparr>
             | Power \<Rightarrow> send_finally cfg s1)"

text \<open>\<open>stopCommand\<close>: the test of its \<open>while\<close> loop, and the part after the loop.\<close>

definition stop_acquire :: "v2_sys \<Rightarrow> v2_sys" where
  "stop_acquire s =
     s\<lparr>v2Pending := None, v2Sending := True,
       v2State := (v2State s)\<lparr>v2_intensityA := 0, v2_intensityB := 0\<rparr>,
       tasks := tasks s @ [Stopping]\<rparr>"

definition stopCommand :: "v2_sys \<Rightarrow> v2_sys" where
  "stopCommand s =
     (if v2Sending s then s\<lparr>tasks := tasks s @ [StopWaiting]\<rparr> else stop_acquire s)"

definition stop_resume :: "v2_sys \<Rightarrow> settled \<Rightarrow> v2_sys" where
  "stop_resume s out =
     (case out of
        Rejected message \<Rightarrow> s\<lparr>v2Sending := False\<rparr>
      | Resolved \<Rightarrow>
          s\<lparr>transmitted := transmitted s @ [(Power, encodeV2Power 0 0)], v2Sending := False\<rparr>)"

definition remove_task :: "nat \<Rightarrow> v2_task list \<Rightarrow> v2_task list" where
  "remove_task k ts = take k ts @ drop (Suc k) ts"

definition v2_step :: "v2_config \<Rightarrow> v2_sys \<Rightarrow> v2_event \<Rightarrow> v2_sys" where
  "v2_step cfg s ev =
     (case ev of
        CallSend i \<Rightarrow> sendCommand cfg s i
      | CallStop \<Rightarrow> stopCommand s
      | Disconnected \<Rightarrow> s\<lparr>v2State := (v2State s)\<lparr>v2_connected := False\<rparr>\<rparr>
      | Settle k out \<Rightarrow>
          if k < length (tasks s) then
            let s0 = s\<lparr>tasks := remove_task k (tasks s)\<rparr>
            in case tasks s ! k of
                 Sending t i \<Rightarrow> send_resume cfg s0 t i out
               | Stopping \<Rightarrow> stop_resume s0 out
               | StopWaiting \<Rightarrow> stopCommand s0
          else s)"

definition run :: "v2_config \<Rightarrow> v2_event list \<Rightarrow> v2_sys" where
  "run cfg evs = foldl (v2_step cfg) v2_initial evs"

fun is_write :: "v2_task \<Rightarrow> bool" where
  "is_write (Sending t i) = True"
| "is_write Stopping = True"
| "is_write StopWaiting = False"

definition in_flight :: "v2_sys \<Rightarrow> nat" where
  "in_flight s = length (filter is_write (tasks s))"

text \<open>Runs of send requests whose writes all succeed, and the last intensity requested.\<close>

fun send_event :: "v2_event \<Rightarrow> bool" where
  "send_event (CallSend i) = True"
| "send_event (Settle k Resolved) = True"
| "send_event ev = False"

fun last_request :: "v2_event list \<Rightarrow> real option" where
  "last_request [] = None"
| "last_request (CallSend i # evs) =
     (case last_request evs of Some j \<Rightarrow> Some j | None \<Rightarrow> Some i)"
| "last_request (ev # evs) = last_request evs"

definition last_power :: "v2_sys \<Rightarrow> bytes option" where
  "last_power s =
     (let powers = filter (\<lambda>w. fst w = Power) (transmitted s)
      in if powers = [] then None else Some (snd (last powers)))"

text \<open>
  The lock invariant, and the invariant of runs of send requests: either nothing is
  suspended, nothing is pending and the last power frame written is that of the last
  request, or one \<open>sendCommand\<close> is suspended and the last request is the pending value
  if there is one and the value being sent otherwise. \<open>writes_left\<close> counts the writes
  that remain until nothing is suspended.
\<close>

definition lock_inv :: "v2_sys \<Rightarrow> bool" where
  "lock_inv s = (in_flight s = (if v2Sending s then 1 else 0))"

definition send_inv :: "v2_sys \<Rightarrow> real option \<Rightarrow> bool" where
  "send_inv s requested =
     (v2_connected (v2State s)
      \<and> (tasks s = [] \<and> \<not> v2Sending s \<and> v2Pending s = None
           \<and> last_power s = map_option (write_frame Power) requested
         \<or> (\<exists>t j. tasks s = [Sending t j] \<and> v2Sending s
               \<and> requested = Some (case v2Pending s of Some p \<Rightarrow> p | None \<Rightarrow> j))))"

fun writes_from :: "v2_config \<Rightarrow> v2_target \<Rightarrow> nat" where
  "writes_from cfg WaveA = (if hasWaveB cfg then 3 else 2)"
| "writes_from cfg WaveB = 2"
| "writes_from cfg Power = 1"

definition writes_left :: "v2_config \<Rightarrow> v2_sys \<Rightarrow> nat" where
  "writes_left cfg s =
     (case tasks s of
        [] \<Rightarrow> 0
      | task # rest \<Rightarrow>
          (case task of
             Sending t j \<Rightarrow>
               writes_from cfg t
               + (case v2Pending s of None \<Rightarrow> 0 | Some p \<Rightarrow> writes_from cfg (first_target cfg))
           | Stopping \<Rightarrow> 0
           | StopWaiting \<Rightarrow> 0))"



section \<open>Rounding\<close>

lemma Math_round_bounds:
  "x - 1 / 2 < real_of_int (Math_round x)" "real_of_int (Math_round x) \<le> x + 1 / 2"
  unfolding Math_round_def by linarith+

lemma Math_round_mono: "x \<le> y \<Longrightarrow> Math_round x \<le> Math_round y"
  unfolding Math_round_def by (simp add: floor_mono)

lemma Math_round_of_int [simp]: "Math_round (real_of_int n) = n"
  unfolding Math_round_def by linarith

lemma Math_round_0 [simp]: "Math_round 0 = 0"
  using Math_round_of_int [of 0] by simp

lemma Math_round_numeral [simp]: "Math_round (numeral k) = numeral k"
  using Math_round_of_int [of "numeral k"] by simp

section \<open>The frequency encoder\<close>

lemma mid_segment_bounds:
  assumes "100 \<le> hz" "hz \<le> 600"
  shows "100 \<le> real_of_int (Math_round ((hz - 100) / 5)) + 100"
    and "real_of_int (Math_round ((hz - 100) / 5)) + 100 \<le> 200"
proof -
  have "Math_round 0 \<le> Math_round ((hz - 100) / 5)"
    using assms by (intro Math_round_mono) simp
  moreover have "Math_round ((hz - 100) / 5) \<le> Math_round 100"
    using assms by (intro Math_round_mono) simp
  ultimately show "100 \<le> real_of_int (Math_round ((hz - 100) / 5)) + 100"
    and "real_of_int (Math_round ((hz - 100) / 5)) + 100 \<le> 200"
    by simp_all
qed

lemma high_segment_bounds:
  assumes "600 \<le> hz" "hz \<le> 1000"
  shows "200 \<le> real_of_int (Math_round ((hz - 600) / 10)) + 200"
    and "real_of_int (Math_round ((hz - 600) / 10)) + 200 \<le> 240"
proof -
  have "Math_round 0 \<le> Math_round ((hz - 600) / 10)"
    using assms by (intro Math_round_mono) simp
  moreover have "Math_round ((hz - 600) / 10) \<le> Math_round 40"
    using assms by (intro Math_round_mono) simp
  ultimately show "200 \<le> real_of_int (Math_round ((hz - 600) / 10)) + 200"
    and "real_of_int (Math_round ((hz - 600) / 10)) + 200 \<le> 240"
    by simp_all
qed

lemma encodeFrequency_segments:
  assumes "10 \<le> hz" "hz \<le> 1000"
  shows "encodeFrequency hz =
     (if hz \<le> 100 then hz
      else if hz \<le> 600 then real_of_int (Math_round ((hz - 100) / 5)) + 100
      else real_of_int (Math_round ((hz - 600) / 10)) + 200)"
  using assms by (simp add: encodeFrequency_def)

lemma encodeFrequency_in_range:
  assumes "10 \<le> hz" "hz \<le> 1000"
  shows "10 \<le> encodeFrequency hz \<and> encodeFrequency hz \<le> 240"
proof -
  consider "hz \<le> 100" | "100 < hz" "hz \<le> 600" | "600 < hz" by linarith
  then show ?thesis
  proof cases
    case 1
    with assms show ?thesis by (simp add: encodeFrequency_def)
  next
    case 2
    with assms mid_segment_bounds [of hz] show ?thesis by (simp add: encodeFrequency_def)
  next
    case 3
    with assms high_segment_bounds [of hz] show ?thesis by (simp add: encodeFrequency_def)
  qed
qed

lemma encodeFrequency_mono_in_range:
  assumes "10 \<le> a" "a \<le> b" "b \<le> 1000"
  shows "encodeFrequency a \<le> encodeFrequency b"
proof -
  consider "b \<le> 100" | "a \<le> 100" "100 < b" "b \<le> 600" | "a \<le> 100" "600 < b"
    | "100 < a" "b \<le> 600" | "100 < a" "a \<le> 600" "600 < b" | "600 < a"
    by linarith
  then show ?thesis
  proof cases
    case 1
    with assms show ?thesis by (simp add: encodeFrequency_def)
  next
    case 2
    with assms mid_segment_bounds [of b] show ?thesis by (simp add: encodeFrequency_def)
  next
    case 3
    with assms high_segment_bounds [of b] show ?thesis by (simp add: encodeFrequency_def)
  next
    case 4
    have "Math_round ((a - 100) / 5) \<le> Math_round ((b - 100) / 5)"
      using assms by (intro Math_round_mono) simp
    with 4 assms show ?thesis by (simp add: encodeFrequency_def)
  next
    case 5
    with assms mid_segment_bounds [of a] high_segment_bounds [of b] show ?thesis
      by (simp add: encodeFrequency_def)
  next
    case 6
    have "Math_round ((a - 600) / 10) \<le> Math_round ((b - 600) / 10)"
      using assms by (intro Math_round_mono) simp
    with 6 assms show ?thesis by (simp add: encodeFrequency_def)
  qed
qed

lemma round5_error:
  fixes r hz :: real
  assumes "(hz - 100) / 5 - 1 / 2 < r" "r \<le> (hz - 100) / 5 + 1 / 2"
  shows "\<bar>r * 5 + 100 - hz\<bar> \<le> 5 / 2"
proof (rule abs_leI)
  show "r * 5 + 100 - hz \<le> 5 / 2" using assms by (simp add: field_simps)
  show "- (r * 5 + 100 - hz) \<le> 5 / 2" using assms by (simp add: field_simps)
qed

lemma round10_error:
  fixes r hz :: real
  assumes "(hz - 600) / 10 - 1 / 2 < r" "r \<le> (hz - 600) / 10 + 1 / 2"
  shows "\<bar>r * 10 + 600 - hz\<bar> \<le> 5"
proof (rule abs_leI)
  show "r * 10 + 600 - hz \<le> 5" using assms by (simp add: field_simps)
  show "- (r * 10 + 600 - hz) \<le> 5" using assms by (simp add: field_simps)
qed

lemma decode_encode_low:
  assumes "10 \<le> hz" "hz \<le> 100"
  shows "decodeFrequency (encodeFrequency hz) = hz"
  using assms by (simp add: encodeFrequency_def decodeFrequency_def)

lemma decode_encode_mid:
  assumes "100 < hz" "hz \<le> 600"
  shows "\<bar>decodeFrequency (encodeFrequency hz) - hz\<bar> \<le> 5 / 2"
proof -
  define r where "r = real_of_int (Math_round ((hz - 100) / 5))"
  have e: "encodeFrequency hz = r + 100"
    using assms by (simp add: encodeFrequency_def r_def)
  have b: "(hz - 100) / 5 - 1 / 2 < r" "r \<le> (hz - 100) / 5 + 1 / 2"
    unfolding r_def by (rule Math_round_bounds)+
  have rng: "100 \<le> r + 100" "r + 100 \<le> 200"
    using mid_segment_bounds [of hz] assms by (simp_all add: r_def)
  have d: "decodeFrequency (r + 100) = r * 5 + 100"
    using rng by (auto simp: decodeFrequency_def)
  show ?thesis unfolding e d using b by (rule round5_error)
qed

lemma decode_encode_high:
  assumes "600 < hz" "hz \<le> 1000"
  shows "\<bar>decodeFrequency (encodeFrequency hz) - hz\<bar> \<le> 5"
proof -
  define r where "r = real_of_int (Math_round ((hz - 600) / 10))"
  have e: "encodeFrequency hz = r + 200"
    using assms by (simp add: encodeFrequency_def r_def)
  have b: "(hz - 600) / 10 - 1 / 2 < r" "r \<le> (hz - 600) / 10 + 1 / 2"
    unfolding r_def by (rule Math_round_bounds)+
  have rng: "200 \<le> r + 200" "r + 200 \<le> 240"
    using high_segment_bounds [of hz] assms by (simp_all add: r_def)
  have d: "decodeFrequency (r + 200) = r * 10 + 600"
    using rng by (cases "r = 0") (auto simp: decodeFrequency_def)
  show ?thesis unfolding e d using b by (rule round10_error)
qed

lemma encodeFrequency_integral:
  assumes "hz \<in> \<int>"
  shows "encodeFrequency hz \<in> \<int>"
  using assms by (auto simp: encodeFrequency_def Let_def min_def max_def)

text \<open>
  Claim C3. The Coyote frequency encoder maps every \<open>hz\<close> in [10,1000] into [0,240]
  (a whole number whenever \<open>hz\<close> is one) through three linear segments: passthrough on
  [10,100], divide-by-5 on (100,600], divide-by-10 on (600,1000]. It is monotonic, and
  decoding the encoded value gives back \<open>hz\<close> exactly on [10,100], to within 5 on
  (100,600] and to within 10 on (600,1000].
\<close>

theorem encodeFrequency_piecewise_monotone_roundtrip:
  assumes "10 \<le> hz" and "hz \<le> 1000"
  shows "0 \<le> encodeFrequency hz \<and> encodeFrequency hz \<le> 240
    \<and> (hz \<in> \<int> \<longrightarrow> encodeFrequency hz \<in> \<int>)
    \<and> encodeFrequency hz =
        (if hz \<le> 100 then hz
         else if hz \<le> 600 then real_of_int (Math_round ((hz - 100) / 5)) + 100
         else real_of_int (Math_round ((hz - 600) / 10)) + 200)
    \<and> (\<forall>hz'. hz \<le> hz' \<and> hz' \<le> 1000 \<longrightarrow> encodeFrequency hz \<le> encodeFrequency hz')
    \<and> (hz \<le> 100 \<longrightarrow> decodeFrequency (encodeFrequency hz) = hz)
    \<and> (100 < hz \<and> hz \<le> 600 \<longrightarrow> \<bar>decodeFrequency (encodeFrequency hz) - hz\<bar> \<le> 5)
    \<and> (600 < hz \<longrightarrow> \<bar>decodeFrequency (encodeFrequency hz) - hz\<bar> \<le> 10)"
proof (intro conjI impI allI)
  show "0 \<le> encodeFrequency hz" "encodeFrequency hz \<le> 240"
    using encodeFrequency_in_range [OF assms] by simp_all
  show "encodeFrequency hz \<in> \<int>" if "hz \<in> \<int>"
    using that by (rule encodeFrequency_integral)
  show "encodeFrequency hz =
        (if hz \<le> 100 then hz
         else if hz \<le> 600 then real_of_int (Math_round ((hz - 100) / 5)) + 100
         else real_of_int (Math_round ((hz - 600) / 10)) + 200)"
    using assms by (rule encodeFrequency_segments)
  show "encodeFrequency hz \<le> encodeFrequency hz'" if "hz \<le> hz' \<and> hz' \<le> 1000" for hz'
    using that assms by (intro encodeFrequency_mono_in_range) simp_all
  show "decodeFrequency (encodeFrequency hz) = hz" if "hz \<le> 100"
    using assms that by (intro decode_encode_low) simp_all
  show "\<bar>decodeFrequency (encodeFrequency hz) - hz\<bar> \<le> 5" if "100 < hz \<and> hz \<le> 600"
    using decode_encode_mid [of hz] that by simp
  show "\<bar>decodeFrequency (encodeFrequency hz) - hz\<bar> \<le> 10" if "600 < hz"
    using decode_encode_high [of hz] that assms by simp
qed

theorem encodeFrequency_piecewise_monotone_roundtrip_witness:
  "(10::real) \<le> 50 \<and> (50::real) \<le> 100
   \<and> decodeFrequency (encodeFrequency 50) = 50
   \<and> (100::real) < 350 \<and> (350::real) \<le> 600
   \<and> \<bar>decodeFrequency (encodeFrequency 350) - 350\<bar> \<le> 5
   \<and> (600::real) < 603 \<and> (603::real) \<le> 997 \<and> (997::real) \<le> 1000 \<and> (603::real) \<in> \<int>
   \<and> \<bar>decodeFrequency (encodeFrequency 603) - 603\<bar> \<le> 10
   \<and> encodeFrequency 603 \<le> encodeFrequency 997
   \<and> encodeFrequency 603 \<in> \<int>"
proof -
  have h1: "(10::real) \<le> 50" "(50::real) \<le> 1000" by simp_all
  have h2: "(10::real) \<le> 350" "(350::real) \<le> 1000" by simp_all
  have h3: "(10::real) \<le> 603" "(603::real) \<le> 1000" by simp_all
  have a1: "(50::real) \<le> 100" by simp
  have a2: "(100::real) < 350 \<and> (350::real) \<le> 600" by simp
  have a3: "(600::real) < 603" by simp
  have a4: "(603::real) \<le> 997 \<and> (997::real) \<le> 1000" by simp
  have z: "(603::real) \<in> \<int>" by simp
  from encodeFrequency_piecewise_monotone_roundtrip [OF h1] a1
  have 1: "decodeFrequency (encodeFrequency 50) = 50" by blast
  from encodeFrequency_piecewise_monotone_roundtrip [OF h2] a2
  have 2: "\<bar>decodeFrequency (encodeFrequency 350) - 350\<bar> \<le> 5" by blast
  from encodeFrequency_piecewise_monotone_roundtrip [OF h3] a3
  have 3: "\<bar>decodeFrequency (encodeFrequency 603) - 603\<bar> \<le> 10" by blast
  from encodeFrequency_piecewise_monotone_roundtrip [OF h3] a4
  have 6: "encodeFrequency 603 \<le> encodeFrequency 997" by blast
  from encodeFrequency_piecewise_monotone_roundtrip [OF h3] z
  have 7: "encodeFrequency 603 \<in> \<int>" by blast
  from h1(1) a1 1 a2 2 a3 a4 z 3 6 7 show ?thesis by (intro conjI) simp_all
qed

section \<open>Session arcs\<close>

lemma focus_window:
  fixes c w :: real
  assumes "0 \<le> w" "0 \<le> c + w / 2" "c - w / 2 \<le> 1"
  shows "0 \<le> max 0 (c - w / 2) \<and> max 0 (c - w / 2) \<le> min 1 (c + w / 2)
    \<and> min 1 (c + w / 2) \<le> 1"
  using assms by (auto simp: max_def min_def)

lemma focus_width:
  fixes t :: real
  assumes "0 \<le> t" "t \<le> 1"
  shows "0 \<le> 1 - t * 0.8" "0 \<le> t + (1 - t * 0.8) / 2" "t - (1 - t * 0.8) / 2 \<le> 1"
    "0 \<le> (1 - t) + (1 - t * 0.8) / 2" "(1 - t) - (1 - t * 0.8) / 2 \<le> 1"
  using assms by (simp_all add: field_simps)

text \<open>
  Claim C5. For every built-in session arc function and every progress value \<open>t\<close> in
  [0,1], the returned normalised range satisfies \<open>0 \<le> min \<le> max \<le> 1\<close>.
\<close>

theorem session_arc_range_normalised:
  assumes "(name, arc) \<in> set SESSION_ARCS" and "0 \<le> t" and "t \<le> 1"
  shows "0 \<le> min_val (arc t) \<and> min_val (arc t) \<le> max_val (arc t) \<and> max_val (arc t) \<le> 1"
proof -
  note fw = focus_width [OF assms(2,3)]
  have fh: "0 \<le> max 0 (t - (1 - t * 0.8) / 2)
      \<and> max 0 (t - (1 - t * 0.8) / 2) \<le> min 1 (t + (1 - t * 0.8) / 2)
      \<and> min 1 (t + (1 - t * 0.8) / 2) \<le> 1"
    by (rule focus_window [OF fw(1) fw(2) fw(3)])
  have fl: "0 \<le> max 0 ((1 - t) - (1 - t * 0.8) / 2)
      \<and> max 0 ((1 - t) - (1 - t * 0.8) / 2) \<le> min 1 ((1 - t) + (1 - t * 0.8) / 2)
      \<and> min 1 ((1 - t) + (1 - t * 0.8) / 2) \<le> 1"
    by (rule focus_window [OF fw(1) fw(4) fw(5)])
  from assms(1) consider "arc = (\<lambda>t. \<lparr>min_val = 0, max_val = 1\<rparr>)"
    | "arc = (\<lambda>t. \<lparr>min_val = 0, max_val = t\<rparr>)"
    | "arc = (\<lambda>t. \<lparr>min_val = 0, max_val = 1 - t\<rparr>)"
    | "arc = (\<lambda>t. \<lparr>min_val = 1 - t, max_val = 1\<rparr>)"
    | "arc = (\<lambda>t. \<lparr>min_val = t, max_val = 1\<rparr>)"
    | "arc = (\<lambda>t. \<lparr>min_val = t * 0.25, max_val = 0.75 + t * 0.25\<rparr>)"
    | "arc = (\<lambda>t. \<lparr>min_val = t * 0.5, max_val = 0.5 + t * 0.5\<rparr>)"
    | "arc = (\<lambda>t. \<lparr>min_val = t * 0.75, max_val = 0.25 + t * 0.75\<rparr>)"
    | "arc = (\<lambda>t. \<lparr>min_val = 0.25 - t * 0.25, max_val = 1 - t * 0.25\<rparr>)"
    | "arc = (\<lambda>t. \<lparr>min_val = 0.5 - t * 0.5, max_val = 1 - t * 0.5\<rparr>)"
    | "arc = (\<lambda>t. \<lparr>min_val = 0.75 - t * 0.75, max_val = 1 - t * 0.75\<rparr>)"
    | "arc = (\<lambda>t. let width = 1 - t * 0.8
        in \<lparr>min_val = max 0 (t - width / 2), max_val = min 1 (t + width / 2)\<rparr>)"
    | "arc = (\<lambda>t. let width = 1 - t * 0.8; center = 1 - t
        in \<lparr>min_val = max 0 (center - width / 2), max_val = min 1 (center + width / 2)\<rparr>)"
    unfolding SESSION_ARCS_def by auto
  then show ?thesis
  proof cases
    case 12
    show ?thesis unfolding 12 Let_def using fh by simp
  next
    case 13
    show ?thesis unfolding 13 Let_def using fl by simp
  qed (use assms(2,3) in \<open>simp_all add: field_simps\<close>)
qed

theorem session_arc_range_normalised_witness:
  "(''close_down'', \<lambda>t. \<lparr>min_val = 0, max_val = 1 - t\<rparr>) \<in> set SESSION_ARCS
   \<and> (0::real) \<le> 1 / 4 \<and> (1 / 4 :: real) \<le> 1
   \<and> (0::real) \<le> min_val \<lparr>min_val = 0, max_val = 1 - 1 / 4\<rparr>
   \<and> min_val \<lparr>min_val = 0, max_val = 1 - 1 / 4 :: real\<rparr> \<le> max_val \<lparr>min_val = 0, max_val = 1 - 1 / 4 :: real\<rparr>
   \<and> max_val \<lparr>min_val = 0, max_val = 1 - 1 / 4 :: real\<rparr> \<le> 1"
proof -
  have m: "(''close_down'', \<lambda>t. \<lparr>min_val = 0, max_val = 1 - t\<rparr>) \<in> set SESSION_ARCS"
    by (simp add: SESSION_ARCS_def)
  have t: "(0::real) \<le> 1 / 4" "(1 / 4 :: real) \<le> 1" by simp_all
  show ?thesis
    using session_arc_range_normalised [OF m t] m by simp
qed

section \<open>Category state\<close>

text \<open>
  Claim C6. For every category state whose configured pattern set has more than one
  member, an advance that brings \<open>instancesRemaining\<close> to zero or below switches
  \<open>currentPattern\<close> to a different member of the pattern set, resets the sample index
  to 0 and redraws \<open>instancesRemaining\<close> within \<open>[minInstances, maxInstances]\<close>,
  whatever the random draws are. The code does not keep the last part: with the
  patterns climb, surge and wave, one instance remaining, the range 8 to 16 and the
  draws 0.5 and \<open>1 - 2 ^ -52\<close>, the pattern is switched and the index reset, but the
  sum \<open>8 + rnd * 9\<close> rounds up to 17 and \<open>instancesRemaining\<close> becomes 17.
\<close>

theorem advanceCategory_redraw_exceeds_maxInstances:
  "advanceCategory
     \<lparr>patterns = [''climb'', ''surge'', ''wave''], currentPattern = Some ''climb'',
      index = 5, instancesRemaining = 1\<rparr>
     \<lparr>minInstances = 8, maxInstances = 16\<rparr> (1 / 2) (1 - 1 / 2 ^ 52)
   = \<lparr>patterns = [''climb'', ''surge'', ''wave''], currentPattern = Some ''wave'',
      index = 0, instancesRemaining = 17\<rparr>
   \<and> randomInRange 8 16 (1 - 1 / 2 ^ 52) = 17
   \<and> \<not> (randomInRange 8 16 (1 - 1 / 2 ^ 52) \<le> maxInstances \<lparr>minInstances = 8, maxInstances = 16\<rparr>)"
proof -
  have r: "randomInRange 8 16 (1 - 1 / 2 ^ 52) = 17" by code_simp
  have p: "pickRandom [''surge'', ''wave''] (1 / 2) = Some ''wave''" by code_simp
  have a: "advanceCategory
     \<lparr>patterns = [''climb'', ''surge'', ''wave''], currentPattern = Some ''climb'',
      index = 5, instancesRemaining = 1\<rparr>
     \<lparr>minInstances = 8, maxInstances = 16\<rparr> (1 / 2) rnd2
   = \<lparr>patterns = [''climb'', ''surge'', ''wave''], currentPattern = Some ''wave'',
      index = 0, instancesRemaining = randomInRange 8 16 rnd2\<rparr>" for rnd2
    by (simp add: advanceCategory_def Let_def p)
  show ?thesis unfolding a r by simp
qed

section \<open>Levels and frames of the protocols\<close>









subsection \<open>Clamping and field widths\<close>


















section \<open>Stop commands\<close>

lemma stop_is_zero_command:
  assumes "stateless p"
  shows "buildStopCommand p ps = buildCommand p ps 0"
  using assms
  by (cases p)
    (simp_all add: stateless_def buildStopCommand_def buildCommand_def level_def
      satisfyer_buildStopCommand_def satisfyer_buildCommand_def
      lovense_buildStopCommand_def lovense_buildCommand_def Number_toString_def
      nat_toString.simps digit_char_def
      wevibe_buildStopCommand_def wevibe_buildCommand_def
      lelo_buildStopCommand_def lelo_buildCommand_def
      kiiroo_buildStopCommand_def kiiroo_buildCommand_def
      svakom_buildStopCommand_def svakom_buildCommand_def
      magicmotion_buildStopCommand_def
      mysteryvibe_buildStopCommand_def mysteryvibe_buildCommand_def
      aneros_buildStopCommand_def aneros_buildCommand_def)

lemma stop_is_zero_command_args:
  "satisfyer_buildStopCommand n = satisfyer_buildCommand 0 n"
  "kiiroo_buildStopCommand n = kiiroo_buildCommand 0 n"
  "mysteryvibe_buildStopCommand n = mysteryvibe_buildCommand 0 n"
  "aneros_buildStopCommand m = aneros_buildCommand 0 m"
  by (simp_all add: level_def satisfyer_buildStopCommand_def
      kiiroo_buildStopCommand_def kiiroo_buildCommand_def
      mysteryvibe_buildStopCommand_def mysteryvibe_buildCommand_def
      aneros_buildStopCommand_def aneros_buildCommand_def)

lemma level_half:
  "level Coyote (1 / 2) = 100" "level CoyoteV2 (1 / 2) = 512"
  by (simp_all add: level_def Math_round_def)

lemma coyote_stop_then_half:
  "coyote_buildStopCommand st =
     (st\<lparr>st_intensityA := 0, st_intensityB := 0\<rparr>, coyote_frame coyote_reset_state)"
  "coyote_buildCommand (fst (coyote_buildStopCommand st)) (1 / 2) 0 =
     (st\<lparr>st_intensityA := 100, st_intensityB := 0\<rparr>,
      coyote_frame (st\<lparr>st_intensityA := 100, st_intensityB := 0\<rparr>))"
  by (simp_all add: coyote_buildStopCommand_def coyote_buildCommand_def level_half
      coyote_frame_def coyote_reset_state_def defaultWaveform_def b0_defaults_def)

lemma v2_stop_then_half:
  "v2_buildStopCommand v = (v\<lparr>v2_intensityA := 0, v2_intensityB := 0\<rparr>, encodeV2Power 0 0)"
  "v2_buildCommand (fst (v2_buildStopCommand v)) (1 / 2) 0 =
     (v\<lparr>v2_intensityA := 512, v2_intensityB := 0\<rparr>, encodeV2Power 512 0)"
  by (simp_all add: v2_buildStopCommand_def v2_buildCommand_def level_half)

text \<open>
  Claim C2, as amended. For every stateless protocol \<open>buildStopCommand()\<close> returns the
  bytes of \<open>buildCommand(0, ...)\<close>. For the stateful Coyote protocol,
  \<open>buildStopCommand()\<close> sets both held channel intensities to zero and returns the frame
  of the reset state, but keeps the held waveforms: a \<open>buildCommand(0.5)\<close> right after
  it carries intensity 100 on channel A, 0 on channel B and the waveforms held before
  the stop. The legacy generation holds intensities only and resets both.
\<close>

theorem buildStopCommand_zero_and_intensity_reset:
  "(stateless p \<longrightarrow> buildStopCommand p ps = buildCommand p ps 0)
   \<and> satisfyer_buildStopCommand n = satisfyer_buildCommand 0 n
   \<and> kiiroo_buildStopCommand n = kiiroo_buildCommand 0 n
   \<and> mysteryvibe_buildStopCommand n = mysteryvibe_buildCommand 0 n
   \<and> aneros_buildStopCommand m = aneros_buildCommand 0 m
   \<and> coyote_buildStopCommand st =
       (st\<lparr>st_intensityA := 0, st_intensityB := 0\<rparr>, coyote_frame coyote_reset_state)
   \<and> coyote_buildCommand (fst (coyote_buildStopCommand st)) (1 / 2) 0 =
       (st\<lparr>st_intensityA := 100, st_intensityB := 0\<rparr>,
        coyote_frame (st\<lparr>st_intensityA := 100, st_intensityB := 0\<rparr>))
   \<and> v2_buildStopCommand v = (v\<lparr>v2_intensityA := 0, v2_intensityB := 0\<rparr>, encodeV2Power 0 0)
   \<and> v2_buildCommand (fst (v2_buildStopCommand v)) (1 / 2) 0 =
       (v\<lparr>v2_intensityA := 512, v2_intensityB := 0\<rparr>, encodeV2Power 512 0)"
  using stop_is_zero_command [of p ps] stop_is_zero_command_args [of n] stop_is_zero_command_args(4) [of m]
    coyote_stop_then_half [of st] v2_stop_then_half [of v]
  by simp

theorem buildStopCommand_zero_and_intensity_reset_witness:
  "stateless Svakom
   \<and> buildStopCommand Svakom
        \<lparr>coyote_st = coyote_reset_state,
         v2_st = \<lparr>v2_intensityA = 0, v2_intensityB = 0, v2_interval = 100, v2_connected = True\<rparr>\<rparr>
     = buildCommand Svakom
        \<lparr>coyote_st = coyote_reset_state,
         v2_st = \<lparr>v2_intensityA = 0, v2_intensityB = 0, v2_interval = 100, v2_connected = True\<rparr>\<rparr> 0
   \<and> snd (buildStopCommand Svakom
        \<lparr>coyote_st = coyote_reset_state,
         v2_st = \<lparr>v2_intensityA = 0, v2_intensityB = 0, v2_interval = 100, v2_connected = True\<rparr>\<rparr>)
     = [0x55, 0x04, 0x03, 0x00, 0x00, 0x00]"
proof -
  let ?ps = "\<lparr>coyote_st = coyote_reset_state,
         v2_st = \<lparr>v2_intensityA = 0, v2_intensityB = 0, v2_interval = 100, v2_connected = True\<rparr>\<rparr>"
  have s: "stateless Svakom" by (simp add: stateless_def)
  have "stateless Svakom \<longrightarrow> buildStopCommand Svakom ?ps = buildCommand Svakom ?ps 0"
    using buildStopCommand_zero_and_intensity_reset [of Svakom ?ps] by (rule conjunct1)
  with s have e: "buildStopCommand Svakom ?ps = buildCommand Svakom ?ps 0" by (rule rev_mp)
  have b: "snd (buildStopCommand Svakom ?ps) = [0x55, 0x04, 0x03, 0x00, 0x00, 0x00]"
    by (simp add: buildStopCommand_def svakom_buildStopCommand_def)
  from s e b show ?thesis by (intro conjI)
qed

text \<open>
  The claim as stated fails on the waveforms: a waveform set on channel A before the
  stop is still held after it and is sent with the next \<open>buildCommand(0.5)\<close>, whose
  frame differs from the one a reset state gives.
\<close>

theorem coyote_stop_keeps_waveform_counterexample:
  "snd (coyote_buildCommand
      (fst (coyote_buildStopCommand
         (fst (coyote_buildFullCommand coyote_reset_state
            \<lparr>opt_intensityA = Some 150, opt_intensityB = None,
             opt_waveformA = Some \<lparr>wf_freq = [10, 10, 10, 10], wf_intensity = [100, 100, 100, 100]\<rparr>,
             opt_waveformB = None\<rparr>))))
      (1 / 2) 0)
   = [0xB0, 0x0F, 100, 0, 10, 10, 10, 10, 100, 100, 100, 100, 100, 100, 100, 100, 50, 50, 50, 50]
   \<and> st_waveformA
      (fst (coyote_buildStopCommand
         (fst (coyote_buildFullCommand coyote_reset_state
            \<lparr>opt_intensityA = Some 150, opt_intensityB = None,
             opt_waveformA = Some \<lparr>wf_freq = [10, 10, 10, 10], wf_intensity = [100, 100, 100, 100]\<rparr>,
             opt_waveformB = None\<rparr>))))
   = Some \<lparr>wf_freq = [10, 10, 10, 10], wf_intensity = [100, 100, 100, 100]\<rparr>
   \<and> snd (coyote_buildCommand coyote_reset_state (1 / 2) 0)
   = [0xB0, 0x0F, 100, 0, 100, 100, 100, 100, 50, 50, 50, 50, 100, 100, 100, 100, 50, 50, 50, 50]"
  by (simp add: coyote_buildCommand_def coyote_buildStopCommand_def coyote_buildFullCommand_def
      coyote_frame_def level_half buildB0Command_def b0_defaults_def coyote_reset_state_def
      defaultWaveform_def freq_byte_def int_byte_def ToUint8_def encodeFrequency_def upt_rec)

section \<open>Protocol detection\<close>

lemma detect_in_find:
  "detect_in ds deviceName uuids =
     map_option def_protocol (find (\<lambda>d. name_matches d deviceName \<or> uuid_matches d uuids) ds)"
  by (induction ds) simp_all

text \<open>
  Claim C4, as amended. For every device name and list of exposed services, detection
  goes through the protocol list in priority order and returns the first protocol that
  matches, by a name pattern or by a shared service UUID. A protocol matching by name is
  thus preferred only over the protocols after it: an earlier protocol that matches by
  service UUID alone wins. If no protocol matches, the result is the explicit
  unknown-device value \<open>None\<close>, not a default protocol.
\<close>

theorem detectProtocol_first_match_in_priority_order:
  "(detectProtocol deviceName services = None \<longleftrightarrow>
      (\<forall>d \<in> set PROTOCOLS. \<not> name_matches d deviceName
         \<and> \<not> uuid_matches d (map (\<lambda>s. toLowerCase (uuid s)) services)))
   \<and> (detectProtocol deviceName services = Some p \<longleftrightarrow>
      (\<exists>i < length PROTOCOLS. def_protocol (PROTOCOLS ! i) = p
         \<and> (name_matches (PROTOCOLS ! i) deviceName
            \<or> uuid_matches (PROTOCOLS ! i) (map (\<lambda>s. toLowerCase (uuid s)) services))
         \<and> (\<forall>j < i. \<not> name_matches (PROTOCOLS ! j) deviceName
            \<and> \<not> uuid_matches (PROTOCOLS ! j) (map (\<lambda>s. toLowerCase (uuid s)) services))))"
proof -
  let ?us = "map (\<lambda>s. toLowerCase (uuid s)) services"
  let ?P = "\<lambda>d. name_matches d deviceName \<or> uuid_matches d ?us"
  have d: "detectProtocol deviceName services = map_option def_protocol (find ?P PROTOCOLS)"
    by (simp add: detectProtocol_def detect_in_find)
  have n: "detectProtocol deviceName services = None \<longleftrightarrow> (\<forall>d \<in> set PROTOCOLS. \<not> ?P d)"
    unfolding d by (auto simp: find_None_iff)
  have s: "detectProtocol deviceName services = Some p \<longleftrightarrow>
      (\<exists>i < length PROTOCOLS. def_protocol (PROTOCOLS ! i) = p \<and> ?P (PROTOCOLS ! i)
         \<and> (\<forall>j < i. \<not> ?P (PROTOCOLS ! j)))"
    unfolding d by (auto simp: find_Some_iff)
  show ?thesis using n s by simp
qed

lemma lvs_name: "name_matches (PROTOCOLS ! 1) ''LVS-Z001''"
  by (simp add: PROTOCOLS_def name_matches_def startsWith_def)

lemma lvs_not_satisfyer: "\<not> name_matches (PROTOCOLS ! 0) ''LVS-Z001''"
  by (simp add: PROTOCOLS_def name_matches_def startsWith_def toLowerCase_def lower_char_def)

lemma no_uuid_match_empty: "\<not> uuid_matches d []"
  by (simp add: uuid_matches_def list_ex_iff)

theorem detectProtocol_first_match_in_priority_order_witness:
  "detectProtocol ''LVS-Z001'' [] = Some Lovense
   \<and> def_protocol (PROTOCOLS ! 1) = Lovense
   \<and> name_matches (PROTOCOLS ! 1) ''LVS-Z001''
   \<and> \<not> name_matches (PROTOCOLS ! 0) ''LVS-Z001''
   \<and> \<not> uuid_matches (PROTOCOLS ! 0) (map (\<lambda>s. toLowerCase (uuid s)) ([] :: service list))
   \<and> detectProtocol ''MyToy'' [] = None
   \<and> \<not> name_matches (PROTOCOLS ! 1) ''MyToy''"
proof -
  let ?none = "map (\<lambda>s. toLowerCase (uuid s)) ([] :: service list)"
  have l: "(1::nat) < length PROTOCOLS" "def_protocol (PROTOCOLS ! 1) = Lovense"
    by (simp_all add: PROTOCOLS_def)
  have b: "\<forall>j < (1::nat). \<not> name_matches (PROTOCOLS ! j) ''LVS-Z001''
      \<and> \<not> uuid_matches (PROTOCOLS ! j) ?none"
    using lvs_not_satisfyer no_uuid_match_empty by simp
  have ex: "\<exists>i < length PROTOCOLS. def_protocol (PROTOCOLS ! i) = Lovense
         \<and> (name_matches (PROTOCOLS ! i) ''LVS-Z001'' \<or> uuid_matches (PROTOCOLS ! i) ?none)
         \<and> (\<forall>j < i. \<not> name_matches (PROTOCOLS ! j) ''LVS-Z001''
            \<and> \<not> uuid_matches (PROTOCOLS ! j) ?none)"
    using l lvs_name b by blast
  have "detectProtocol ''LVS-Z001'' [] = Some Lovense \<longleftrightarrow>
      (\<exists>i < length PROTOCOLS. def_protocol (PROTOCOLS ! i) = Lovense
         \<and> (name_matches (PROTOCOLS ! i) ''LVS-Z001'' \<or> uuid_matches (PROTOCOLS ! i) ?none)
         \<and> (\<forall>j < i. \<not> name_matches (PROTOCOLS ! j) ''LVS-Z001''
            \<and> \<not> uuid_matches (PROTOCOLS ! j) ?none))"
    using detectProtocol_first_match_in_priority_order [of "''LVS-Z001''" "[]" Lovense]
    by (rule conjunct2)
  from this ex have f: "detectProtocol ''LVS-Z001'' [] = Some Lovense" by (rule iffD2)
  have n: "detectProtocol ''MyToy'' [] = None" by code_simp
  have m: "PROTOCOLS ! 1 \<in> set PROTOCOLS" using l(1) by (rule nth_mem)
  have "detectProtocol ''MyToy'' [] = None \<longleftrightarrow>
      (\<forall>d \<in> set PROTOCOLS. \<not> name_matches d ''MyToy'' \<and> \<not> uuid_matches d ?none)"
    using detectProtocol_first_match_in_priority_order [of "''MyToy''" "[]" Lovense]
    by (rule conjunct1)
  with n have "\<forall>d \<in> set PROTOCOLS. \<not> name_matches d ''MyToy'' \<and> \<not> uuid_matches d ?none"
    by (rule rev_iffD1)
  then have u: "\<not> name_matches (PROTOCOLS ! 1) ''MyToy''" using m by blast
  from f l(2) lvs_name lvs_not_satisfyer no_uuid_match_empty [of "PROTOCOLS ! 0"] n u
  show ?thesis by (intro conjI) simp_all
qed

text \<open>
  The claim as stated fails: the name \<open>LVS-Z001\<close> matches a Lovense pattern and no
  Satisfyer pattern, yet with the service \<open>0000fff0-...\<close> exposed the result is
  Satisfyer, which matches by service UUID only and comes first in the list.
\<close>

theorem detectProtocol_uuid_before_later_name_counterexample:
  "detectProtocol ''LVS-Z001''
     [\<lparr>uuid = ''0000fff0-0000-1000-8000-00805f9b34fb'', getCharacteristics = Inr []\<rparr>]
     = Some Satisfyer
   \<and> def_protocol (PROTOCOLS ! 1) = Lovense
   \<and> name_matches (PROTOCOLS ! 1) ''LVS-Z001''
   \<and> def_protocol (PROTOCOLS ! 0) = Satisfyer
   \<and> \<not> name_matches (PROTOCOLS ! 0) ''LVS-Z001''
   \<and> uuid_matches (PROTOCOLS ! 0) [''0000fff0-0000-1000-8000-00805f9b34fb'']"
proof -
  have u: "uuid_matches (PROTOCOLS ! 0) [''0000fff0-0000-1000-8000-00805f9b34fb'']"
    by (simp add: PROTOCOLS_def uuid_matches_def toLowerCase_def lower_char_def)
  have l: "toLowerCase ''0000fff0-0000-1000-8000-00805f9b34fb'' = ''0000fff0-0000-1000-8000-00805f9b34fb''"
    by (simp add: toLowerCase_def lower_char_def)
  have p: "PROTOCOLS = PROTOCOLS ! 0 # tl PROTOCOLS" "def_protocol (PROTOCOLS ! 0) = Satisfyer"
    "def_protocol (PROTOCOLS ! 1) = Lovense"
    by (simp_all add: PROTOCOLS_def)
  have "detect_in (PROTOCOLS ! 0 # tl PROTOCOLS) ''LVS-Z001'' [''0000fff0-0000-1000-8000-00805f9b34fb'']
      = Some Satisfyer"
    using u lvs_not_satisfyer p(2) by simp
  then have "detectProtocol ''LVS-Z001''
     [\<lparr>uuid = ''0000fff0-0000-1000-8000-00805f9b34fb'', getCharacteristics = Inr []\<rparr>]
     = Some Satisfyer"
    using p(1) l by (simp add: detectProtocol_def)
  then show ?thesis using u lvs_name lvs_not_satisfyer p(2,3) by simp
qed

section \<open>The connect loop\<close>

lemma try_attempt_one_connect: "count_connects (fst (try_attempt out)) = 1"
  by (cases out) (simp_all add: count_connects_def)

lemma try_attempt_failure:
  assumes "failure out = Some e"
  obtains evs where "try_attempt out = (evs, Inl e)"
  using assms by (cases out) simp_all

lemma attempt3:
  "connect_attempts gatt 3 =
     (case try_attempt (gatt 3) of
        (evs, Inr s) \<Rightarrow> (evs, Inr (Some s))
      | (evs, Inl e) \<Rightarrow> (evs @ [Warn 3], Inl e))"
  by (subst connect_attempts.simps) (simp split: prod.splits sum.splits)

lemma attempt2:
  "connect_attempts gatt 2 =
     (case try_attempt (gatt 2) of
        (evs, Inr s) \<Rightarrow> (evs, Inr (Some s))
      | (evs, Inl e) \<Rightarrow>
          (evs @ [Warn 2, Sleep 500] @ fst (connect_attempts gatt 3),
           snd (connect_attempts gatt 3)))"
  by (subst connect_attempts.simps) (simp split: prod.splits sum.splits)

lemma attempt1:
  "connect_attempts gatt 1 =
     (case try_attempt (gatt 1) of
        (evs, Inr s) \<Rightarrow> (evs, Inr (Some s))
      | (evs, Inl e) \<Rightarrow>
          (evs @ [Warn 1, Sleep 500] @ fst (connect_attempts gatt 2),
           snd (connect_attempts gatt 2)))"
  by (subst connect_attempts.simps) (simp del: One_nat_def split: prod.splits sum.splits)

lemma count3: "count_connects (fst (connect_attempts gatt 3)) = 1"
  using try_attempt_one_connect [of "gatt 3"]
  by (auto simp: attempt3 count_connects_def split: prod.splits sum.splits)

lemma count2: "count_connects (fst (connect_attempts gatt 2)) \<le> 2"
  using try_attempt_one_connect [of "gatt 2"] count3 [of gatt]
  by (auto simp: attempt2 count_connects_def split: prod.splits sum.splits)

lemma count1: "count_connects (fst (connect_attempts gatt 1)) \<le> 3"
  using try_attempt_one_connect [of "gatt 1"] count2 [of gatt]
  by (auto simp del: One_nat_def simp: attempt1 count_connects_def split: prod.splits sum.splits)

lemma first_succeeds:
  assumes "gatt 1 = Succeeds s"
  shows "connect_attempts gatt 1 = ([GattConnect, Sleep 300, GetPrimaryServices], Inr (Some s))"
  using assms by (simp del: One_nat_def add: attempt1)

lemma second_succeeds:
  assumes "failure (gatt 1) = Some e1" "gatt 2 = Succeeds s"
  shows "connect_attempts gatt 1 =
    (fst (try_attempt (gatt 1)) @ [Warn 1, Sleep 500]
       @ [GattConnect, Sleep 300, GetPrimaryServices], Inr (Some s))"
proof -
  obtain evs1 where 1: "try_attempt (gatt 1) = (evs1, Inl e1)"
    using assms(1) by (rule try_attempt_failure)
  show ?thesis using 1 assms(2) by (simp del: One_nat_def add: attempt1 attempt2)
qed

lemma third_succeeds:
  assumes "failure (gatt 1) = Some e1" "failure (gatt 2) = Some e2" "gatt 3 = Succeeds s"
  shows "connect_attempts gatt 1 =
    (fst (try_attempt (gatt 1)) @ [Warn 1, Sleep 500]
       @ fst (try_attempt (gatt 2)) @ [Warn 2, Sleep 500]
       @ [GattConnect, Sleep 300, GetPrimaryServices], Inr (Some s))"
proof -
  obtain evs1 where 1: "try_attempt (gatt 1) = (evs1, Inl e1)"
    using assms(1) by (rule try_attempt_failure)
  obtain evs2 where 2: "try_attempt (gatt 2) = (evs2, Inl e2)"
    using assms(2) by (rule try_attempt_failure)
  show ?thesis using 1 2 assms(3) by (simp del: One_nat_def add: attempt1 attempt2 attempt3)
qed

lemma third_fails:
  assumes "failure (gatt 1) = Some e1" "failure (gatt 2) = Some e2" "failure (gatt 3) = Some e3"
  shows "connect_attempts gatt 1 =
    (fst (try_attempt (gatt 1)) @ [Warn 1, Sleep 500]
       @ fst (try_attempt (gatt 2)) @ [Warn 2, Sleep 500]
       @ fst (try_attempt (gatt 3)) @ [Warn 3], Inl e3)"
proof -
  obtain evs1 where 1: "try_attempt (gatt 1) = (evs1, Inl e1)"
    using assms(1) by (rule try_attempt_failure)
  obtain evs2 where 2: "try_attempt (gatt 2) = (evs2, Inl e2)"
    using assms(2) by (rule try_attempt_failure)
  obtain evs3 where 3: "try_attempt (gatt 3) = (evs3, Inl e3)"
    using assms(3) by (rule try_attempt_failure)
  show ?thesis using 1 2 3 by (simp del: One_nat_def add: attempt1 attempt2 attempt3)
qed

text \<open>
  Claim C7. The GATT connect loop makes at most 3 attempts. A failure on attempt 1 or 2
  is caught and followed by the 500 ms backoff and the next attempt. A sequence that
  fails twice and succeeds on the 3rd attempt raises nothing: the loop ends with the
  services that \<open>getPrimaryServices\<close> returned and \<open>connect\<close> goes on with them. A
  failure on the 3rd attempt is rethrown to the caller of \<open>connect\<close>.
\<close>

theorem connect_loop_three_attempts:
  "count_connects (fst (connect_attempts gatt 1)) \<le> 3
   \<and> (gatt 1 = Succeeds s \<longrightarrow>
        connect_attempts gatt 1 = ([GattConnect, Sleep 300, GetPrimaryServices], Inr (Some s)))
   \<and> (failure (gatt 1) = Some e1 \<and> gatt 2 = Succeeds s \<longrightarrow>
        connect_attempts gatt 1 =
          (fst (try_attempt (gatt 1)) @ [Warn 1, Sleep 500]
             @ [GattConnect, Sleep 300, GetPrimaryServices], Inr (Some s)))
   \<and> (failure (gatt 1) = Some e1 \<and> failure (gatt 2) = Some e2 \<and> gatt 3 = Succeeds s \<longrightarrow>
        connect_attempts gatt 1 =
          (fst (try_attempt (gatt 1)) @ [Warn 1, Sleep 500]
             @ fst (try_attempt (gatt 2)) @ [Warn 2, Sleep 500]
             @ [GattConnect, Sleep 300, GetPrimaryServices], Inr (Some s))
        \<and> connect \<lparr>dev_name = name, dev_gatt = gatt\<rparr> = connect_device name s)
   \<and> (failure (gatt 1) = Some e1 \<and> failure (gatt 2) = Some e2 \<and> failure (gatt 3) = Some e3 \<longrightarrow>
        connect_attempts gatt 1 =
          (fst (try_attempt (gatt 1)) @ [Warn 1, Sleep 500]
             @ fst (try_attempt (gatt 2)) @ [Warn 2, Sleep 500]
             @ fst (try_attempt (gatt 3)) @ [Warn 3], Inl e3)
        \<and> connect \<lparr>dev_name = name, dev_gatt = gatt\<rparr> = Inl (GattError e3))"
proof (intro conjI impI)
  show "count_connects (fst (connect_attempts gatt 1)) \<le> 3" by (rule count1)
  show "connect_attempts gatt 1 = ([GattConnect, Sleep 300, GetPrimaryServices], Inr (Some s))"
    if "gatt 1 = Succeeds s" using that by (rule first_succeeds)
  show "connect_attempts gatt 1 =
          (fst (try_attempt (gatt 1)) @ [Warn 1, Sleep 500]
             @ [GattConnect, Sleep 300, GetPrimaryServices], Inr (Some s))"
    if "failure (gatt 1) = Some e1 \<and> gatt 2 = Succeeds s"
    using that by (intro second_succeeds) simp_all
  show "connect_attempts gatt 1 =
          (fst (try_attempt (gatt 1)) @ [Warn 1, Sleep 500]
             @ fst (try_attempt (gatt 2)) @ [Warn 2, Sleep 500]
             @ [GattConnect, Sleep 300, GetPrimaryServices], Inr (Some s))"
    if "failure (gatt 1) = Some e1 \<and> failure (gatt 2) = Some e2 \<and> gatt 3 = Succeeds s"
    using that by (intro third_succeeds) simp_all
  show "connect \<lparr>dev_name = name, dev_gatt = gatt\<rparr> = connect_device name s"
    if "failure (gatt 1) = Some e1 \<and> failure (gatt 2) = Some e2 \<and> gatt 3 = Succeeds s"
    using that third_succeeds [of gatt e1 e2 s] by (simp del: One_nat_def add: connect_def)
  show "connect_attempts gatt 1 =
          (fst (try_attempt (gatt 1)) @ [Warn 1, Sleep 500]
             @ fst (try_attempt (gatt 2)) @ [Warn 2, Sleep 500]
             @ fst (try_attempt (gatt 3)) @ [Warn 3], Inl e3)"
    if "failure (gatt 1) = Some e1 \<and> failure (gatt 2) = Some e2 \<and> failure (gatt 3) = Some e3"
    using that by (intro third_fails) simp_all
  show "connect \<lparr>dev_name = name, dev_gatt = gatt\<rparr> = Inl (GattError e3)"
    if "failure (gatt 1) = Some e1 \<and> failure (gatt 2) = Some e2 \<and> failure (gatt 3) = Some e3"
    using that third_fails [of gatt e1 e2 e3] by (simp del: One_nat_def add: connect_def)
qed

theorem connect_loop_three_attempts_witness:
  "connect_attempts (\<lambda>k::nat. if k = 3 then Succeeds [] else ConnectFails ''busy'' :: (string, service list) attempt_outcome) 1 =
       ([GattConnect, Warn 1, Sleep 500, GattConnect, Warn 2, Sleep 500,
         GattConnect, Sleep 300, GetPrimaryServices], Inr (Some []))
   \<and> connect \<lparr>dev_name = ''LVS-Z001'',
        dev_gatt = (\<lambda>k::nat. if k = 3 then Succeeds [] else ConnectFails ''busy'')\<rparr>
       = connect_device ''LVS-Z001'' []
   \<and> connect_attempts (\<lambda>k::nat. ConnectFails ''busy'' :: (string, service list) attempt_outcome) 1 =
       ([GattConnect, Warn 1, Sleep 500, GattConnect, Warn 2, Sleep 500, GattConnect, Warn 3],
        Inl ''busy'')
   \<and> connect \<lparr>dev_name = ''LVS-Z001'', dev_gatt = (\<lambda>k::nat. ConnectFails ''busy'')\<rparr>
       = Inl (GattError ''busy'')
   \<and> connect_attempts (\<lambda>k::nat. if k = 2 then Succeeds [] else ServicesFail ''busy'' :: (string, service list) attempt_outcome) 1 =
       ([GattConnect, Sleep 300, GetPrimaryServices, Warn 1, Sleep 500,
         GattConnect, Sleep 300, GetPrimaryServices], Inr (Some []))
   \<and> connect_attempts (\<lambda>k::nat. Succeeds [] :: (string, service list) attempt_outcome) 1 =
       ([GattConnect, Sleep 300, GetPrimaryServices], Inr (Some []))"
proof -
  let ?g3 = "(\<lambda>k. if k = 3 then Succeeds [] else ConnectFails ''busy'') :: nat \<Rightarrow> (string, service list) attempt_outcome"
  let ?gf = "(\<lambda>k. ConnectFails ''busy'') :: nat \<Rightarrow> (string, service list) attempt_outcome"
  let ?g2 = "(\<lambda>k. if k = 2 then Succeeds [] else ServicesFail ''busy'') :: nat \<Rightarrow> (string, service list) attempt_outcome"
  let ?g1 = "(\<lambda>k. Succeeds []) :: nat \<Rightarrow> (string, service list) attempt_outcome"
  have h3: "failure (?g3 1) = Some ''busy'' \<and> failure (?g3 2) = Some ''busy'' \<and> ?g3 3 = Succeeds []"
    by (simp del: One_nat_def)
  have hf: "failure (?gf 1) = Some ''busy'' \<and> failure (?gf 2) = Some ''busy''
      \<and> failure (?gf 3) = Some ''busy''"
    by simp
  have h2: "failure (?g2 1) = Some ''busy'' \<and> ?g2 2 = Succeeds []"
    by (simp del: One_nat_def)
  have h1: "?g1 1 = Succeeds []" by simp
  have t3: "fst (try_attempt (?g3 1)) = [GattConnect]" "fst (try_attempt (?g3 2)) = [GattConnect]"
    by (simp_all del: One_nat_def)
  have tf: "fst (try_attempt (?gf 1)) = [GattConnect]" "fst (try_attempt (?gf 2)) = [GattConnect]"
    "fst (try_attempt (?gf 3)) = [GattConnect]"
    by simp_all
  have t2: "fst (try_attempt (?g2 1)) = [GattConnect, Sleep 300, GetPrimaryServices]"
    by (simp del: One_nat_def)
  have a: "connect_attempts ?g3 1 =
          (fst (try_attempt (?g3 1)) @ [Warn 1, Sleep 500]
             @ fst (try_attempt (?g3 2)) @ [Warn 2, Sleep 500]
             @ [GattConnect, Sleep 300, GetPrimaryServices], Inr (Some []))
        \<and> connect \<lparr>dev_name = ''LVS-Z001'', dev_gatt = ?g3\<rparr> = connect_device ''LVS-Z001'' []"
    using connect_loop_three_attempts [of ?g3 "[]" "''busy''" "''busy''" "''LVS-Z001''"] h3
    by blast
  have b: "connect_attempts ?gf 1 =
          (fst (try_attempt (?gf 1)) @ [Warn 1, Sleep 500]
             @ fst (try_attempt (?gf 2)) @ [Warn 2, Sleep 500]
             @ fst (try_attempt (?gf 3)) @ [Warn 3], Inl ''busy'')
        \<and> connect \<lparr>dev_name = ''LVS-Z001'', dev_gatt = ?gf\<rparr> = Inl (GattError ''busy'')"
    using connect_loop_three_attempts [of ?gf "[]" "''busy''" "''busy''" "''LVS-Z001''" "''busy''"] hf
    by blast
  have c: "connect_attempts ?g2 1 =
          (fst (try_attempt (?g2 1)) @ [Warn 1, Sleep 500]
             @ [GattConnect, Sleep 300, GetPrimaryServices], Inr (Some []))"
    using connect_loop_three_attempts [of ?g2 "[]" "''busy''" "''busy''" "''LVS-Z001''"] h2
    by blast
  have d: "connect_attempts ?g1 1 = ([GattConnect, Sleep 300, GetPrimaryServices], Inr (Some []))"
    using connect_loop_three_attempts [of ?g1 "[]" "''busy''" "''busy''" "''LVS-Z001''"] h1
    by blast
  from a b c d show ?thesis unfolding t3 tf t2 by simp
qed

section \<open>Fallback for unknown devices\<close>

lemma lovense_fallback:
  assumes "\<not> isCoyote deviceName" "detectProtocol deviceName services = None"
  shows "connect_device deviceName services =
     (case target_service services of
        None \<Rightarrow> Inl TypeError
      | Some targetService \<Rightarrow>
          (case getCharacteristics targetService of
             Inl e \<Rightarrow> Inl (GattError e)
           | Inr chars \<Rightarrow>
               (case find (\<lambda>c. c_write c \<or> c_writeWithoutResponse c) chars of
                  None \<Rightarrow> Inl NoWritableCharacteristic
                | Some writeChar \<Rightarrow>
                    Inr \<lparr>h_name = deviceName, h_protocol = Lovense, h_writeChar = writeChar,
                         h_useWriteWithoutResponse = False\<rparr>)))"
  using assms by (simp add: connect_device_def)

lemma lovense_handle_sends:
  assumes "h_protocol h = Lovense"
  shows "snd (send h hs i) = writeToChar h (h_writeChar h) (lovense_buildCommand i)"
  using assms by (simp add: send_def buildCommand_def Let_def)

lemma find_writable:
  "find (\<lambda>c. c_write c \<or> c_writeWithoutResponse c) chars = Some w
   \<Longrightarrow> c_write w \<or> c_writeWithoutResponse w"
  by (auto simp: find_Some_iff)

text \<open>
  Claim C9. When the device name is not an e-stim name and protocol detection returns
  the unknown-device result, \<open>connect\<close> does not fail for that reason: it takes the
  Lovense protocol and goes on. It returns a handle exactly when the target service
  lists a writable characteristic, and every handle it returns has the Lovense protocol
  and sends the text command \<open>Vibrate:<level>;\<close> to that characteristic. The only
  failures left are a missing target service, a rejected characteristic listing and a
  target service without writable characteristic.
\<close>

theorem unknown_device_falls_back_to_lovense:
  assumes "\<not> isCoyote deviceName" and "detectProtocol deviceName services = None"
  shows "(connect_device deviceName services = Inr h \<longrightarrow>
            h_protocol h = Lovense
            \<and> (c_write (h_writeChar h) \<or> c_writeWithoutResponse (h_writeChar h))
            \<and> snd (send h hs i) =
                CharWrite (if c_write (h_writeChar h) then WriteValue else WriteValueWithoutResponse)
                  (h_writeChar h)
                  (TextEncoder_encode (''Vibrate:'' @ Number_toString (Math_round (i * 20)) @ '';'')))
    \<and> (target_service services = Some targetService
         \<and> getCharacteristics targetService = Inr chars
         \<and> find (\<lambda>c. c_write c \<or> c_writeWithoutResponse c) chars = Some writeChar \<longrightarrow>
            connect_device deviceName services =
              Inr \<lparr>h_name = deviceName, h_protocol = Lovense, h_writeChar = writeChar,
                   h_useWriteWithoutResponse = False\<rparr>)
    \<and> (connect_device deviceName services = Inl e \<longrightarrow>
          e = TypeError \<and> target_service services = None
          \<or> (\<exists>t m. target_service services = Some t \<and> getCharacteristics t = Inl m \<and> e = GattError m)
          \<or> (\<exists>t cs. target_service services = Some t \<and> getCharacteristics t = Inr cs
                \<and> find (\<lambda>c. c_write c \<or> c_writeWithoutResponse c) cs = None
                \<and> e = NoWritableCharacteristic))"
proof (intro conjI impI)
  note fb = lovense_fallback [OF assms]
  assume c: "connect_device deviceName services = Inr h"
  from c fb obtain t chars w where
    w: "find (\<lambda>c. c_write c \<or> c_writeWithoutResponse c) chars = Some w"
    and h: "h = \<lparr>h_name = deviceName, h_protocol = Lovense, h_writeChar = w,
                 h_useWriteWithoutResponse = False\<rparr>"
    by (auto split: option.splits sum.splits)
  show "h_protocol h = Lovense" using h by simp
  show "c_write (h_writeChar h) \<or> c_writeWithoutResponse (h_writeChar h)"
    using find_writable [OF w] h by simp
  have "snd (send h hs i) = writeToChar h (h_writeChar h) (lovense_buildCommand i)"
    using h by (intro lovense_handle_sends) simp
  then show "snd (send h hs i) =
                CharWrite (if c_write (h_writeChar h) then WriteValue else WriteValueWithoutResponse)
                  (h_writeChar h)
                  (TextEncoder_encode (''Vibrate:'' @ Number_toString (Math_round (i * 20)) @ '';''))"
    using h by (simp add: writeToChar_def lovense_buildCommand_def level_def)
next
  assume "target_service services = Some targetService
         \<and> getCharacteristics targetService = Inr chars
         \<and> find (\<lambda>c. c_write c \<or> c_writeWithoutResponse c) chars = Some writeChar"
  then show "connect_device deviceName services =
              Inr \<lparr>h_name = deviceName, h_protocol = Lovense, h_writeChar = writeChar,
                   h_useWriteWithoutResponse = False\<rparr>"
    using lovense_fallback [OF assms] by simp
next
  assume "connect_device deviceName services = Inl e"
  then show "e = TypeError \<and> target_service services = None
          \<or> (\<exists>t m. target_service services = Some t \<and> getCharacteristics t = Inl m \<and> e = GattError m)
          \<or> (\<exists>t cs. target_service services = Some t \<and> getCharacteristics t = Inr cs
                \<and> find (\<lambda>c. c_write c \<or> c_writeWithoutResponse c) cs = None
                \<and> e = NoWritableCharacteristic)"
    using lovense_fallback [OF assms] by (auto split: option.splits sum.splits)
qed


theorem unknown_device_falls_back_to_lovense_witness:
  "\<not> isCoyote ''MyToy''
   \<and> detectProtocol ''MyToy''
        [\<lparr>uuid = ''00001800-0000-1000-8000-00805f9b34fb'', getCharacteristics = Inr []\<rparr>,
         \<lparr>uuid = ''0000ffe0-0000-1000-8000-00805f9b34fb'',
          getCharacteristics = Inr [\<lparr>c_uuid = ''0000ffe1-0000-1000-8000-00805f9b34fb'',
            c_write = True, c_writeWithoutResponse = False\<rparr>]\<rparr>] = None
   \<and> connect_device ''MyToy''
        [\<lparr>uuid = ''00001800-0000-1000-8000-00805f9b34fb'', getCharacteristics = Inr []\<rparr>,
         \<lparr>uuid = ''0000ffe0-0000-1000-8000-00805f9b34fb'',
          getCharacteristics = Inr [\<lparr>c_uuid = ''0000ffe1-0000-1000-8000-00805f9b34fb'',
            c_write = True, c_writeWithoutResponse = False\<rparr>]\<rparr>]
       = Inr \<lparr>h_name = ''MyToy'', h_protocol = Lovense,
              h_writeChar = \<lparr>c_uuid = ''0000ffe1-0000-1000-8000-00805f9b34fb'',
                c_write = True, c_writeWithoutResponse = False\<rparr>,
              h_useWriteWithoutResponse = False\<rparr>
   \<and> snd (send
        \<lparr>h_name = ''MyToy'', h_protocol = Lovense,
         h_writeChar = \<lparr>c_uuid = ''0000ffe1-0000-1000-8000-00805f9b34fb'',
           c_write = True, c_writeWithoutResponse = False\<rparr>,
         h_useWriteWithoutResponse = False\<rparr>
        \<lparr>hs_active = False, hs_lastCommand = None, hs_lastIntensity = 0,
         hs_protocol_state = \<lparr>coyote_st = coyote_reset_state,
           v2_st = \<lparr>v2_intensityA = 0, v2_intensityB = 0, v2_interval = 100,
             v2_connected = True\<rparr>\<rparr>\<rparr>
        (1 / 2))
       = CharWrite WriteValue
           \<lparr>c_uuid = ''0000ffe1-0000-1000-8000-00805f9b34fb'',
            c_write = True, c_writeWithoutResponse = False\<rparr>
           (TextEncoder_encode ''Vibrate:10;'')
   \<and> detectProtocol ''MyToy'' [] = None
   \<and> connect_device ''MyToy'' [] = Inl TypeError
   \<and> target_service [] = None"
proof -
  let ?wc = "\<lparr>c_uuid = ''0000ffe1-0000-1000-8000-00805f9b34fb'',
            c_write = True, c_writeWithoutResponse = False\<rparr>"
  let ?t = "\<lparr>uuid = ''0000ffe0-0000-1000-8000-00805f9b34fb'', getCharacteristics = Inr [?wc]\<rparr>"
  let ?svcs = "[\<lparr>uuid = ''00001800-0000-1000-8000-00805f9b34fb'', getCharacteristics = Inr []\<rparr>, ?t]"
  let ?h = "\<lparr>h_name = ''MyToy'', h_protocol = Lovense, h_writeChar = ?wc,
           h_useWriteWithoutResponse = False\<rparr>"
  let ?hs = "\<lparr>hs_active = False, hs_lastCommand = None, hs_lastIntensity = 0,
         hs_protocol_state = \<lparr>coyote_st = coyote_reset_state,
           v2_st = \<lparr>v2_intensityA = 0, v2_intensityB = 0, v2_interval = 100,
             v2_connected = True\<rparr>\<rparr>\<rparr>"
  have c: "\<not> isCoyote ''MyToy''"
    by (simp add: isCoyote_def includesStr_def startsWith_def toLowerCase_def lower_char_def upt_rec)
  have d: "detectProtocol ''MyToy'' ?svcs = None" by code_simp
  have d0: "detectProtocol ''MyToy'' [] = None" by code_simp
  have t: "target_service ?svcs = Some ?t \<and> getCharacteristics ?t = Inr [?wc]
      \<and> find (\<lambda>c. c_write c \<or> c_writeWithoutResponse c) [?wc] = Some ?wc"
    by (simp add: target_service_def startsWith_def)
  note inst = unknown_device_falls_back_to_lovense [OF c d, where h = ?h and hs = ?hs
      and i = "1 / 2" and targetService = ?t and chars = "[?wc]" and writeChar = ?wc]
  from inst t have r: "connect_device ''MyToy'' ?svcs = Inr ?h" by blast
  from inst r have "snd (send ?h ?hs (1 / 2)) =
      CharWrite (if c_write (h_writeChar ?h) then WriteValue else WriteValueWithoutResponse)
        (h_writeChar ?h)
        (TextEncoder_encode (''Vibrate:'' @ Number_toString (Math_round (1 / 2 * 20)) @ '';''))"
    by blast
  then have s: "snd (send ?h ?hs (1 / 2)) = CharWrite WriteValue ?wc (TextEncoder_encode ''Vibrate:10;'')"
    by (simp add: Math_round_def Number_toString_def nat_toString.simps digit_char_def)
  have e: "connect_device ''MyToy'' [] = Inl TypeError"
    using c d0 by (simp add: connect_device_def target_service_def)
  from unknown_device_falls_back_to_lovense [OF c d0, where e = TypeError] e
  have "TypeError = TypeError \<and> target_service [] = None
          \<or> (\<exists>t m. target_service [] = Some t \<and> getCharacteristics t = Inl m \<and> TypeError = GattError m)
          \<or> (\<exists>t cs. target_service [] = Some t \<and> getCharacteristics t = Inr cs
                \<and> find (\<lambda>c. c_write c \<or> c_writeWithoutResponse c) cs = None
                \<and> TypeError = NoWritableCharacteristic)"
    by blast
  then have n: "target_service [] = None" by auto
  from c d r s d0 e n show ?thesis by (intro conjI)
qed

section \<open>The legacy send path: one write in flight, the latest value wins\<close>

lemma in_flight_simps [simp]:
  "in_flight (s\<lparr>v2Pending := p\<rparr>) = in_flight s"
  "in_flight (s\<lparr>v2Sending := b\<rparr>) = in_flight s"
  "in_flight (s\<lparr>v2State := v\<rparr>) = in_flight s"
  "in_flight (s\<lparr>transmitted := w\<rparr>) = in_flight s"
  "in_flight (s\<lparr>tasks := ts\<rparr>) = length (filter is_write ts)"
  by (simp_all add: in_flight_def)

lemma lock_inv_initial: "lock_inv v2_initial"
  by (simp add: lock_inv_def v2_initial_def in_flight_def)

lemma lock_inv_sendCommand:
  assumes "lock_inv s"
  shows "lock_inv (sendCommand cfg s i)"
  using assms by (auto simp: lock_inv_def sendCommand_def Let_def in_flight_def split: if_splits)

lemma in_flight_send_catch [simp]: "in_flight (send_catch s m) = in_flight s"
  by (simp add: send_catch_def)

lemma lock_inv_send_finally:
  assumes "in_flight s = 0"
  shows "lock_inv (send_finally cfg s)"
proof -
  have "lock_inv (s\<lparr>v2Sending := False\<rparr>)" "lock_inv (s\<lparr>v2Sending := False, v2Pending := None\<rparr>)"
    using assms by (simp_all add: lock_inv_def)
  then show ?thesis
    by (auto simp: send_finally_def Let_def intro: lock_inv_sendCommand split: option.splits)
qed

lemma lock_inv_send_resume:
  assumes "in_flight s = 0" "v2Sending s"
  shows "lock_inv (send_resume cfg s t i out)"
proof (cases out)
  case Resolved
  have f: "lock_inv (send_finally cfg (s\<lparr>transmitted := transmitted s @ [(t, write_frame t i)]\<rparr>))"
    using assms by (intro lock_inv_send_finally) simp
  have a: "lock_inv (s\<lparr>transmitted := w, tasks := tasks s @ [Sending t' i]\<rparr>)" for w t'
    using assms by (simp add: lock_inv_def in_flight_def)
  show ?thesis using Resolved f a
    by (cases t) (simp_all add: send_resume_def Let_def)
next
  case (Rejected m)
  have "lock_inv (send_finally cfg (send_catch s m))"
    using assms by (intro lock_inv_send_finally) simp
  then show ?thesis using Rejected by (simp add: send_resume_def)
qed

lemma lock_inv_stop_acquire:
  assumes "in_flight s = 0"
  shows "lock_inv (stop_acquire s)"
  using assms by (simp add: lock_inv_def stop_acquire_def in_flight_def)

lemma lock_inv_stopCommand:
  assumes "lock_inv s"
  shows "lock_inv (stopCommand s)"
proof (cases "v2Sending s")
  case True
  then show ?thesis using assms by (simp add: stopCommand_def lock_inv_def in_flight_def)
next
  case False
  then have "in_flight s = 0" using assms by (simp add: lock_inv_def)
  then show ?thesis using False by (simp add: stopCommand_def lock_inv_stop_acquire)
qed

lemma lock_inv_stop_resume:
  assumes "in_flight s = 0"
  shows "lock_inv (stop_resume s out)"
  using assms by (cases out) (simp_all add: stop_resume_def lock_inv_def)

lemma filter_remove_task:
  assumes "k < length ts"
  shows "length (filter P (remove_task k ts)) + (if P (ts ! k) then 1 else 0) = length (filter P ts)"
proof -
  have "ts = take k ts @ ts ! k # drop (Suc k) ts"
    using assms by (rule id_take_nth_drop)
  then have "filter P ts = filter P (take k ts) @ filter P [ts ! k] @ filter P (drop (Suc k) ts)"
    by (metis append_Cons append_Nil filter_append)
  then show ?thesis by (simp add: remove_task_def)
qed

lemma lock_inv_step:
  assumes "lock_inv s"
  shows "lock_inv (v2_step cfg s ev)"
proof (cases ev)
  case (CallSend i)
  then show ?thesis using assms by (simp add: v2_step_def lock_inv_sendCommand)
next
  case CallStop
  then show ?thesis using assms by (simp add: v2_step_def lock_inv_stopCommand)
next
  case Disconnected
  then show ?thesis using assms by (simp add: v2_step_def lock_inv_def)
next
  case (Settle k out)
  show ?thesis
  proof (cases "k < length (tasks s)")
    case False
    then show ?thesis using Settle assms by (simp add: v2_step_def)
  next
    case True
    let ?s0 = "s\<lparr>tasks := remove_task k (tasks s)\<rparr>"
    have r: "in_flight ?s0 + (if is_write (tasks s ! k) then 1 else 0) = in_flight s"
      using filter_remove_task [OF True, of is_write] by (simp add: in_flight_def)
    show ?thesis
    proof (cases "tasks s ! k")
      case (Sending t i)
      then have "in_flight ?s0 = 0" "v2Sending ?s0"
        using r assms by (auto simp: lock_inv_def split: if_splits)
      then have "lock_inv (send_resume cfg ?s0 t i out)" by (rule lock_inv_send_resume)
      then show ?thesis using Settle True Sending by (simp add: v2_step_def)
    next
      case Stopping
      then have "in_flight ?s0 = 0"
        using r assms by (auto simp: lock_inv_def split: if_splits)
      then have "lock_inv (stop_resume ?s0 out)" by (rule lock_inv_stop_resume)
      then show ?thesis using Settle True Stopping by (simp add: v2_step_def)
    next
      case StopWaiting
      then have "lock_inv ?s0" using r assms by (simp add: lock_inv_def)
      then have "lock_inv (stopCommand ?s0)" by (rule lock_inv_stopCommand)
      then show ?thesis using Settle True StopWaiting by (simp add: v2_step_def)
    qed
  qed
qed

lemma lock_inv_run: "lock_inv (run cfg evs)"
proof (induction evs rule: rev_induct)
  case Nil
  then show ?case by (simp add: run_def lock_inv_initial)
next
  case (snoc ev evs)
  then show ?case by (simp add: run_def lock_inv_step)
qed


subsection \<open>Runs of send requests\<close>

lemma last_request_snoc:
  "last_request (evs @ [ev]) = (case ev of CallSend i \<Rightarrow> Some i | _ \<Rightarrow> last_request evs)"
  by (induction evs rule: last_request.induct) (auto split: v2_event.splits option.splits)

lemma send_inv_initial: "send_inv v2_initial None"
  by (simp add: send_inv_def v2_initial_def last_power_def)

lemma send_inv_call:
  assumes "send_inv s requested"
  shows "send_inv (sendCommand cfg s i) (Some i)"
  using assms by (auto simp: send_inv_def sendCommand_def Let_def)

lemma send_inv_cases:
  assumes "send_inv s requested"
  obtains "tasks s = []" "\<not> v2Sending s" "v2Pending s = None"
      "last_power s = map_option (write_frame Power) requested"
  | t j where "tasks s = [Sending t j]" "v2Sending s"
      "requested = Some (case v2Pending s of Some p \<Rightarrow> p | None \<Rightarrow> j)"
  using assms by (auto simp: send_inv_def)

lemma settle_head:
  assumes "tasks s = [Sending t j]"
  shows "v2_step cfg s (Settle 0 Resolved) = send_resume cfg (s\<lparr>tasks := []\<rparr>) t j Resolved"
  using assms by (simp add: v2_step_def remove_task_def)

lemma send_inv_settle:
  assumes "send_inv s requested"
  shows "send_inv (v2_step cfg s (Settle k Resolved)) requested"
  using assms
proof (cases rule: send_inv_cases)
  case 1
  then show ?thesis using assms by (simp add: v2_step_def)
next
  case (2 t j)
  have c: "v2_connected (v2State s)" using assms by (simp add: send_inv_def)
  show ?thesis
  proof (cases k)
    case (Suc n)
    then show ?thesis using assms 2 by (simp add: v2_step_def)
  next
    case 0
    note st = settle_head [OF 2(1), of cfg]
    show ?thesis
    proof (cases t)
      case WaveA
      then show ?thesis using 0 st c 2 by (simp add: send_resume_def send_inv_def Let_def)
    next
      case WaveB
      then show ?thesis using 0 st c 2 by (simp add: send_resume_def send_inv_def Let_def)
    next
      case Power
      then show ?thesis using 0 st c 2
        by (cases "v2Pending s")
          (simp_all add: send_resume_def send_finally_def sendCommand_def send_inv_def Let_def
            last_power_def)
    qed
  qed
qed

lemma run_snoc: "run cfg (evs @ [ev]) = v2_step cfg (run cfg evs) ev"
  by (simp add: run_def)

lemma run_append: "run cfg (evs @ evs') = foldl (v2_step cfg) (run cfg evs) evs'"
  by (simp add: run_def)

lemma send_inv_run:
  assumes "list_all send_event evs"
  shows "send_inv (run cfg evs) (last_request evs)"
  using assms
proof (induction evs rule: rev_induct)
  case Nil
  then show ?case by (simp add: run_def send_inv_initial)
next
  case (snoc ev evs)
  then have ih: "send_inv (run cfg evs) (last_request evs)" and ev: "send_event ev" by simp_all
  from ev consider i where "ev = CallSend i" | k where "ev = Settle k Resolved"
    by (cases ev rule: send_event.cases) simp_all
  then show ?case
  proof cases
    case 1
    then show ?thesis using send_inv_call [OF ih, of cfg i]
      by (simp add: run_snoc last_request_snoc v2_step_def)
  next
    case 2
    then show ?thesis using send_inv_settle [OF ih, of cfg k]
      by (simp add: run_snoc last_request_snoc)
  qed
qed

lemma send_while_sending:
  assumes "v2_connected (v2State s)" "v2Sending s"
  shows "v2_step cfg s (CallSend i) = s\<lparr>v2Pending := Some i\<rparr>"
  using assms by (simp add: v2_step_def sendCommand_def)

lemma pending_dispatched:
  assumes "tasks s = [Sending Power j]" "v2_connected (v2State s)" "v2Pending s = Some p"
  shows "v2_step cfg s (Settle 0 Resolved) =
     s\<lparr>tasks := [Sending (first_target cfg) p],
       transmitted := transmitted s @ [(Power, write_frame Power j)],
       v2Sending := True, v2Pending := None,
       v2State := (v2State s)\<lparr>v2_intensityA := Math_round (p * 1024),
                              v2_intensityB := Math_round (p * 1024)\<rparr>\<rparr>"
  using assms
  by (simp add: settle_head send_resume_def send_finally_def sendCommand_def Let_def)

lemma writes_from_bound: "0 < writes_from cfg t" "writes_from cfg t \<le> 3"
  by (cases t; simp)+

lemma writes_left_bound:
  assumes "send_inv s requested"
  shows "writes_left cfg s \<le> 6"
  using assms
proof (cases rule: send_inv_cases)
  case 1
  then show ?thesis by (simp add: writes_left_def)
next
  case (2 t j)
  then show ?thesis
    using writes_from_bound(2) [of cfg t] writes_from_bound(2) [of cfg "first_target cfg"]
    by (simp add: writes_left_def split: option.splits)
qed

lemma writes_left_zero:
  assumes "send_inv s requested" "writes_left cfg s = 0"
  shows "tasks s = []"
  using assms(1)
proof (cases rule: send_inv_cases)
  case 1
  then show ?thesis by simp
next
  case (2 t j)
  then show ?thesis
    using writes_from_bound(1) [of cfg t] assms(2) by (simp add: writes_left_def)
qed

lemma writes_left_settle:
  assumes "send_inv s requested"
  shows "writes_left cfg (v2_step cfg s (Settle 0 Resolved)) = writes_left cfg s - 1"
  using assms
proof (cases rule: send_inv_cases)
  case 1
  then show ?thesis by (simp add: v2_step_def writes_left_def)
next
  case (2 t j)
  have c: "v2_connected (v2State s)" using assms by (simp add: send_inv_def)
  note st = settle_head [OF 2(1), of cfg]
  show ?thesis
  proof (cases t)
    case WaveA
    then show ?thesis using st 2 by (simp add: send_resume_def writes_left_def Let_def)
  next
    case WaveB
    then show ?thesis using st 2 by (simp add: send_resume_def writes_left_def Let_def)
  next
    case Power
    then show ?thesis using st c 2
      by (cases "v2Pending s")
        (simp_all add: send_resume_def send_finally_def sendCommand_def writes_left_def Let_def)
  qed
qed

lemma settle_repeatedly:
  assumes "send_inv s requested"
  shows "send_inv (foldl (v2_step cfg) s (replicate n (Settle 0 Resolved))) requested
    \<and> writes_left cfg (foldl (v2_step cfg) s (replicate n (Settle 0 Resolved)))
        = writes_left cfg s - n"
  using assms
proof (induction n arbitrary: s)
  case 0
  then show ?case by simp
next
  case (Suc n)
  let ?s1 = "v2_step cfg s (Settle 0 Resolved)"
  have i: "send_inv ?s1 requested" using Suc.prems by (rule send_inv_settle)
  have w: "writes_left cfg ?s1 = writes_left cfg s - 1" using Suc.prems by (rule writes_left_settle)
  show ?case using Suc.IH [OF i] w by simp
qed

lemma settles_to_quiescence:
  assumes "send_inv s requested"
  shows "tasks (foldl (v2_step cfg) s (replicate 6 (Settle 0 Resolved))) = []
    \<and> v2Pending (foldl (v2_step cfg) s (replicate 6 (Settle 0 Resolved))) = None
    \<and> last_power (foldl (v2_step cfg) s (replicate 6 (Settle 0 Resolved)))
        = map_option (write_frame Power) requested"
proof -
  let ?s' = "foldl (v2_step cfg) s (replicate 6 (Settle 0 Resolved))"
  have i: "send_inv ?s' requested" and w: "writes_left cfg ?s' = writes_left cfg s - 6"
    using settle_repeatedly [OF assms, of cfg 6] by simp_all
  have "writes_left cfg ?s' = 0" using w writes_left_bound [OF assms, of cfg] by simp
  then have t: "tasks ?s' = []" using i by (rule writes_left_zero [rotated])
  then show ?thesis using i by (auto simp: send_inv_def)
qed


text \<open>
  Claim C8. On the legacy Coyote send path there is never more than one BLE write in
  flight, whatever calls of \<open>sendCommand\<close> and \<open>stopCommand\<close>, settled or rejected
  writes and disconnects are interleaved, and a write is in flight exactly while
  \<open>v2Sending\<close> holds. A send issued while a write is in flight changes nothing but the
  pending value, which it replaces. When the power write that ends a send completes,
  the pending value is cleared and dispatched as a new send. In every run of send
  requests whose writes succeed, whenever nothing is in flight the last power frame
  written is that of the most recent request, and at most six further completed writes
  bring the system there.
\<close>

theorem v2_send_one_write_in_flight_latest_wins:
  "in_flight (run cfg evs) \<le> 1
   \<and> (v2Sending (run cfg evs) \<longleftrightarrow> in_flight (run cfg evs) = 1)
   \<and> (v2_connected (v2State s) \<and> v2Sending s \<longrightarrow>
        v2_step cfg s (CallSend i) = s\<lparr>v2Pending := Some i\<rparr>)
   \<and> (tasks s = [Sending Power j] \<and> v2_connected (v2State s) \<and> v2Pending s = Some p \<longrightarrow>
        v2_step cfg s (Settle 0 Resolved) =
          s\<lparr>tasks := [Sending (first_target cfg) p],
            transmitted := transmitted s @ [(Power, write_frame Power j)],
            v2Sending := True, v2Pending := None,
            v2State := (v2State s)\<lparr>v2_intensityA := Math_round (p * 1024),
                                   v2_intensityB := Math_round (p * 1024)\<rparr>\<rparr>)
   \<and> (list_all send_event evs \<and> tasks (run cfg evs) = [] \<longrightarrow>
        v2Pending (run cfg evs) = None
        \<and> last_power (run cfg evs) = map_option (write_frame Power) (last_request evs))
   \<and> (list_all send_event evs \<longrightarrow>
        tasks (run cfg (evs @ replicate 6 (Settle 0 Resolved))) = []
        \<and> v2Pending (run cfg (evs @ replicate 6 (Settle 0 Resolved))) = None
        \<and> last_power (run cfg (evs @ replicate 6 (Settle 0 Resolved)))
            = map_option (write_frame Power) (last_request evs))"
proof (intro conjI impI)
  have l: "lock_inv (run cfg evs)" by (rule lock_inv_run)
  show "in_flight (run cfg evs) \<le> 1" using l by (simp add: lock_inv_def split: if_splits)
  show "v2Sending (run cfg evs) \<longleftrightarrow> in_flight (run cfg evs) = 1"
    using l by (simp add: lock_inv_def split: if_splits)
next
  assume "v2_connected (v2State s) \<and> v2Sending s"
  then show "v2_step cfg s (CallSend i) = s\<lparr>v2Pending := Some i\<rparr>"
    by (intro send_while_sending) simp_all
next
  assume "tasks s = [Sending Power j] \<and> v2_connected (v2State s) \<and> v2Pending s = Some p"
  then show "v2_step cfg s (Settle 0 Resolved) =
          s\<lparr>tasks := [Sending (first_target cfg) p],
            transmitted := transmitted s @ [(Power, write_frame Power j)],
            v2Sending := True, v2Pending := None,
            v2State := (v2State s)\<lparr>v2_intensityA := Math_round (p * 1024),
                                   v2_intensityB := Math_round (p * 1024)\<rparr>\<rparr>"
    by (intro pending_dispatched) simp_all
next
  assume a: "list_all send_event evs \<and> tasks (run cfg evs) = []"
  then have "send_inv (run cfg evs) (last_request evs)" by (intro send_inv_run) simp
  then show "v2Pending (run cfg evs) = None"
    and "last_power (run cfg evs) = map_option (write_frame Power) (last_request evs)"
    using a by (auto simp: send_inv_def)
next
  assume "list_all send_event evs"
  then have "send_inv (run cfg evs) (last_request evs)" by (rule send_inv_run)
  from settles_to_quiescence [OF this, of cfg]
  show "tasks (run cfg (evs @ replicate 6 (Settle 0 Resolved))) = []"
    and "v2Pending (run cfg (evs @ replicate 6 (Settle 0 Resolved))) = None"
    and "last_power (run cfg (evs @ replicate 6 (Settle 0 Resolved)))
            = map_option (write_frame Power) (last_request evs)"
    by (simp_all add: run_append)
qed

theorem v2_send_one_write_in_flight_latest_wins_witness:
  "list_all send_event [CallSend (1 / 5), CallSend (1 / 2), CallSend (4 / 5)]
   \<and> last_power (run \<lparr>hasWaveA = True, hasWaveB = True\<rparr>
        ([CallSend (1 / 5), CallSend (1 / 2), CallSend (4 / 5)] @ replicate 6 (Settle 0 Resolved)))
       = Some (encodeV2Power 819 819)
   \<and> v2_connected (v2State (run \<lparr>hasWaveA = True, hasWaveB = True\<rparr> [CallSend (1 / 5)]))
   \<and> v2Sending (run \<lparr>hasWaveA = True, hasWaveB = True\<rparr> [CallSend (1 / 5)])
   \<and> v2_step \<lparr>hasWaveA = True, hasWaveB = True\<rparr>
        (run \<lparr>hasWaveA = True, hasWaveB = True\<rparr> [CallSend (1 / 5)]) (CallSend (1 / 2))
       = (run \<lparr>hasWaveA = True, hasWaveB = True\<rparr> [CallSend (1 / 5)])\<lparr>v2Pending := Some (1 / 2)\<rparr>
   \<and> in_flight (run \<lparr>hasWaveA = True, hasWaveB = True\<rparr>
        [CallSend (1 / 5), CallSend (1 / 2), CallSend (4 / 5)]) = 1
   \<and> tasks (run \<lparr>hasWaveA = True, hasWaveB = True\<rparr>
        [CallSend (1 / 5), CallSend (4 / 5), Settle 0 Resolved, Settle 0 Resolved])
       = [Sending Power (1 / 5)]
   \<and> v2Pending (run \<lparr>hasWaveA = True, hasWaveB = True\<rparr>
        [CallSend (1 / 5), CallSend (4 / 5), Settle 0 Resolved, Settle 0 Resolved]) = Some (4 / 5)
   \<and> tasks (v2_step \<lparr>hasWaveA = True, hasWaveB = True\<rparr>
        (run \<lparr>hasWaveA = True, hasWaveB = True\<rparr>
           [CallSend (1 / 5), CallSend (4 / 5), Settle 0 Resolved, Settle 0 Resolved])
        (Settle 0 Resolved)) = [Sending WaveA (4 / 5)]
   \<and> tasks (run \<lparr>hasWaveA = True, hasWaveB = True\<rparr>
        [CallSend (1 / 5), Settle 0 Resolved, Settle 0 Resolved, Settle 0 Resolved]) = []
   \<and> last_power (run \<lparr>hasWaveA = True, hasWaveB = True\<rparr>
        [CallSend (1 / 5), Settle 0 Resolved, Settle 0 Resolved, Settle 0 Resolved])
       = Some (encodeV2Power 205 205)"
proof -
  let ?cfg = "\<lparr>hasWaveA = True, hasWaveB = True\<rparr>"
  let ?evs = "[CallSend (1 / 5), CallSend (1 / 2), CallSend (4 / 5)]"
  let ?s = "run ?cfg [CallSend (1 / 5)]"
  let ?s3 = "run ?cfg [CallSend (1 / 5), CallSend (4 / 5), Settle 0 Resolved, Settle 0 Resolved]"
  let ?q = "[CallSend (1 / 5), Settle 0 Resolved, Settle 0 Resolved, Settle 0 Resolved]"
  note ev = run_def v2_step_def sendCommand_def send_resume_def send_finally_def
    v2_initial_def remove_task_def first_target_def Let_def
  have e: "list_all send_event ?evs" by simp
  have r: "last_request ?evs = Some (4 / 5)" by simp
  have f: "write_frame Power (4 / 5) = encodeV2Power 819 819"
    "write_frame Power (1 / 5) = encodeV2Power 205 205"
    by (simp_all add: write_frame_def Math_round_def)
  have c: "v2_connected (v2State ?s) \<and> v2Sending ?s" by (simp add: ev)
  have sending: "v2Sending (run ?cfg ?evs)" by (simp add: ev)
  have s3: "tasks ?s3 = [Sending Power (1 / 5)] \<and> v2_connected (v2State ?s3)
      \<and> v2Pending ?s3 = Some (4 / 5)"
    by (simp add: ev)
  have q: "list_all send_event ?q \<and> tasks (run ?cfg ?q) = []" by (simp add: ev)
  have rq: "last_request ?q = Some (1 / 5)" by simp
  note inst = v2_send_one_write_in_flight_latest_wins [of ?cfg ?evs ?s "1 / 2"]
  from inst e r f have 1: "last_power (run ?cfg (?evs @ replicate 6 (Settle 0 Resolved)))
       = Some (encodeV2Power 819 819)" by simp
  from inst c have 2: "v2_step ?cfg ?s (CallSend (1 / 2)) = ?s\<lparr>v2Pending := Some (1 / 2)\<rparr>"
    by blast
  from inst sending have 3: "in_flight (run ?cfg ?evs) = 1" by blast
  have "v2_step ?cfg ?s3 (Settle 0 Resolved) =
          ?s3\<lparr>tasks := [Sending (first_target ?cfg) (4 / 5)],
            transmitted := transmitted ?s3 @ [(Power, write_frame Power (1 / 5))],
            v2Sending := True, v2Pending := None,
            v2State := (v2State ?s3)\<lparr>v2_intensityA := Math_round (4 / 5 * 1024),
                                    v2_intensityB := Math_round (4 / 5 * 1024)\<rparr>\<rparr>"
    using v2_send_one_write_in_flight_latest_wins [of ?cfg ?evs ?s3 "1 / 2" "1 / 5" "4 / 5"] s3
    by blast
  then have 4: "tasks (v2_step ?cfg ?s3 (Settle 0 Resolved)) = [Sending WaveA (4 / 5)]"
    by (simp add: first_target_def)
  have "last_power (run ?cfg ?q) = map_option (write_frame Power) (last_request ?q)"
    using v2_send_one_write_in_flight_latest_wins [of ?cfg ?q ?s "1 / 2"] q by blast
  then have 5: "last_power (run ?cfg ?q) = Some (encodeV2Power 205 205)"
    using rq f by simp
  from e 1 c 2 3 s3 4 q 5 show ?thesis by (intro conjI) simp_all
qed

end
